theory Spec2Isabelle
  imports Complex_Main
begin

section \<open>Python values\<close>

text \<open>
  The values that flow through the untyped parts of \<^verbatim>\<open>blog_writer.py\<close>: the result of
  \<^verbatim>\<open>crew.kickoff()\<close> and the entries of a tool's JSON payload. \<open>PStr\<close> is a \<^verbatim>\<open>str\<close>,
  \<open>PInt\<close> an \<^verbatim>\<open>int\<close>, \<open>PDict\<close> a \<^verbatim>\<open>dict\<close> with string keys in insertion order
  (keys distinct, as in a Python dict), and \<open>PObj tag\<close> any other object (a float, a list,
  \<^verbatim>\<open>None\<close>, an instance of a class), told apart by \<open>tag\<close>.
\<close>

datatype pyval =
    PStr string
  | PInt int
  | PDict "(string \<times> pyval) list"
  | PObj string

text \<open>\<^verbatim>\<open>isinstance(v, str)\<close> and \<^verbatim>\<open>isinstance(v, dict)\<close>.\<close>

fun is_str :: "pyval \<Rightarrow> bool" where
  "is_str (PStr s) = True"
| "is_str v = False"

fun is_dict :: "pyval \<Rightarrow> bool" where
  "is_dict (PDict d) = True"
| "is_dict v = False"

text \<open>
  Every exception of the program is a value. \<open>ConfigurationError\<close>, \<open>TransportError\<close>
  and \<open>ModelError\<close> are the failures of the language-model client; the others are raised
  by the Python runtime or by the agent framework.
\<close>

datatype type_error =
    NotAMapping
  | MultipleValues string
  | UnexpectedKeyword string
  | MissingArguments "string list"

datatype error =
    ConfigurationError
  | TransportError string
  | ModelError string
  | JSONDecodeError string
  | TypeError type_error
  | ValueError string
  | KeyError string
  | OutputParserException string
  | TaskFailure string

text \<open>
  \<^verbatim>\<open>d.get(k, default)\<close> on the entries of a dict, the default already evaluated.
\<close>

definition dict_get :: "(string \<times> pyval) list \<Rightarrow> string \<Rightarrow> pyval \<Rightarrow> pyval" where
  "dict_get d k dflt = (case map_of d k of Some v \<Rightarrow> v | None \<Rightarrow> dflt)"

text \<open>
  The builtin \<^verbatim>\<open>str\<close>. On a \<^verbatim>\<open>str\<close> it is the identity; the rendering of every other
  value belongs to the Python runtime and to the classes of the libraries, so it is the
  parameter \<open>render\<close>. A rendering can raise: \<^verbatim>\<open>__str__\<close> and \<^verbatim>\<open>__repr__\<close> are code of the
  value's class, and an \<^verbatim>\<open>int\<close> of too many digits is a \<^verbatim>\<open>ValueError\<close>.
\<close>

definition py_str :: "(pyval \<Rightarrow> error + string) \<Rightarrow> pyval \<Rightarrow> error + string" where
  "py_str render v = (case v of PStr s \<Rightarrow> Inr s | _ \<Rightarrow> render v)"

section \<open>The result normalizer\<close>

text \<open>
  \<^verbatim>\<open>
  def clean_crewai_output(result):
      if isinstance(result, str):
          return result
      elif isinstance(result, dict):
          return result.get('raw', str(result))
      return str(result)
  \<close>
  In the branch of a dict, \<^verbatim>\<open>str(result)\<close> is an argument of \<^verbatim>\<open>get\<close> and is evaluated
  before the lookup: when the rendering of the dict raises, the function raises, whether
  the dict has the key \<^verbatim>\<open>raw\<close> or not.
\<close>

fun clean_crewai_output :: "(pyval \<Rightarrow> error + string) \<Rightarrow> pyval \<Rightarrow> error + pyval" where
  "clean_crewai_output render (PStr s) = Inr (PStr s)"
| "clean_crewai_output render (PDict d) =
     (case py_str render (PDict d) of
        Inl e \<Rightarrow> Inl e
      | Inr rendering \<Rightarrow> Inr (dict_get d ''raw'' (PStr rendering)))"
| "clean_crewai_output render v =
     (case py_str render v of
        Inl e \<Rightarrow> Inl e
      | Inr rendering \<Rightarrow> Inr (PStr rendering))"

section \<open>Clients and model calls\<close>

text \<open>
  A \<^verbatim>\<open>ChatOpenAI\<close> object. \<open>ident\<close> is the identity of the Python object: two clients
  with the same settings are still two objects.
\<close>

record client =
  ident :: nat
  temperature :: real
  model :: string
  api_key :: string

text \<open>
  Modelled from the spec: the constructor of \<^verbatim>\<open>ChatOpenAI\<close> belongs to the client library.
  It reads the credential from the environment (here \<open>key\<close>), and its absence is a fatal
  configuration error. \<open>oid\<close> is the identity the new object gets.
\<close>

definition ChatOpenAI :: "string option \<Rightarrow> nat \<Rightarrow> real \<Rightarrow> string \<Rightarrow> error + client" where
  "ChatOpenAI key oid t m =
     (case key of
        None \<Rightarrow> Inl ConfigurationError
      | Some k \<Rightarrow> Inr \<lparr>ident = oid, temperature = t, model = m, api_key = k\<rparr>)"

text \<open>
  \<^verbatim>\<open>
  def get_llm(temperature: float, model_name: str) -> ChatOpenAI:
      return ChatOpenAI(temperature=temperature, model=model_name)
  \<close>
\<close>

definition get_llm :: "string option \<Rightarrow> nat \<Rightarrow> real \<Rightarrow> string \<Rightarrow> error + client" where
  "get_llm key oid temperature' model_name = ChatOpenAI key oid temperature' model_name"

text \<open>
  The language model behind a client, \<^verbatim>\<open>generate(prompt_text, temperature, model_name)\<close>:
  a request either fails or returns text. Every request is logged as a \<open>ModelCall\<close> with
  the client that carried it; the other events are logged by the crew coordinator.
\<close>

type_synonym backend = "client \<Rightarrow> string \<Rightarrow> error + string"

datatype agent = Agent (role: string) (goal: string) (backstory: string)
  (agent_llm: client) (agent_verbose: bool)

datatype task = Task (description: string) (task_agent: agent) (expected_output: string)
  (task_context: "task list")

datatype event =
    ModelCall client string
  | TaskStarted task string
  | TaskCompleted task string
  | TaskFailed task error

text \<open>An effectful step returns its log together with its result or its error.\<close>

type_synonym 'a run = "event list \<times> (error + 'a)"

text \<open>\<^verbatim>\<open>chain.invoke(...).content\<close> for a chain \<^verbatim>\<open>prompt | llm\<close>, the prompt already rendered.\<close>

definition invoke_llm :: "backend \<Rightarrow> client \<Rightarrow> string \<Rightarrow> string run" where
  "invoke_llm be c prompt = ([ModelCall c prompt], be c prompt)"

section \<open>Prompt templates and stage functions\<close>

definition nl :: string where
  "nl = [CHR 0x0A]"

definition sq :: string where
  "sq = [CHR 0x27]"

text \<open>
  Decimal rendering of an \<^verbatim>\<open>int\<close>, as an f-string does it. The orchestrators format only
  the word count of the page, a number between 300 and 5000, so the conversion is taken
  as total here.
\<close>

fun str_nat :: "nat \<Rightarrow> string" where
  "str_nat n = (if n < 10 then [char_of (48 + n)] else str_nat (n div 10) @ [char_of (48 + n mod 10)])"

definition str_int :: "int \<Rightarrow> string" where
  "str_int i = (if i < 0 then ''-'' @ str_nat (nat (- i)) else str_nat (nat i))"

text \<open>
  The Python runtime: \<open>render\<close> is \<^verbatim>\<open>str\<close> on values that are not strings and
  \<open>json_loads\<close> is \<^verbatim>\<open>json.loads\<close>.
\<close>

record runtime =
  render :: "pyval \<Rightarrow> error + string"
  json_loads :: "string \<Rightarrow> error + pyval"

text \<open>
  \<^verbatim>\<open>
  def generate_outline(topic: str, audience: str, llm: ChatOpenAI) -> str:
      outline_prompt = PromptTemplate(
          template="Create detailed outline for blog post about '{topic}' for audience
                    '{audience}'. Include:\n- Main sections\n- Sub-sections\n- Key points\n
                    - Suggested call-to-action", ...)
      chain = outline_prompt | llm
      return chain.invoke({"topic": topic, "audience": audience}).content
  \<close>
  The annotations are not checked at run time: a stage function takes any value and the
  template formats it with \<^verbatim>\<open>str\<close>, field by field in the order of the template. A
  rendering that raises ends the function before the model is asked.
\<close>

definition generate_outline :: "backend \<Rightarrow> runtime \<Rightarrow> pyval \<Rightarrow> pyval \<Rightarrow> client \<Rightarrow> string run" where
  "generate_outline be rt topic audience llm =
     (case py_str (render rt) topic of
        Inl e \<Rightarrow> ([], Inl e)
      | Inr topic' \<Rightarrow>
          (case py_str (render rt) audience of
             Inl e \<Rightarrow> ([], Inl e)
           | Inr audience' \<Rightarrow>
               invoke_llm be llm
                 (''Create detailed outline for blog post about '' @ sq @ topic' @ sq
                  @ '' for audience '' @ sq @ audience' @ sq @ ''. Include:'' @ nl
                  @ ''- Main sections'' @ nl @ ''- Sub-sections'' @ nl @ ''- Key points'' @ nl
                  @ ''- Suggested call-to-action'')))"

text \<open>
  \<^verbatim>\<open>
  def generate_blog_post(topic, audience, tone, word_count, keywords, llm) -> str:
      blog_prompt = PromptTemplate(
          template="Write comprehensive blog post about {topic} for {audience}
                    ({tone} tone, {word_count} words). Keywords: {keywords}", ...)
      chain = blog_prompt | llm
      return chain.invoke({...}).content
  \<close>
\<close>

definition generate_blog_post ::
  "backend \<Rightarrow> runtime \<Rightarrow> pyval \<Rightarrow> pyval \<Rightarrow> pyval \<Rightarrow> pyval \<Rightarrow> pyval \<Rightarrow> client \<Rightarrow> string run" where
  "generate_blog_post be rt topic audience tone word_count keywords llm =
     (case py_str (render rt) topic of
        Inl e \<Rightarrow> ([], Inl e)
      | Inr topic' \<Rightarrow>
          (case py_str (render rt) audience of
             Inl e \<Rightarrow> ([], Inl e)
           | Inr audience' \<Rightarrow>
               (case py_str (render rt) tone of
                  Inl e \<Rightarrow> ([], Inl e)
                | Inr tone' \<Rightarrow>
                    (case py_str (render rt) word_count of
                       Inl e \<Rightarrow> ([], Inl e)
                     | Inr word_count' \<Rightarrow>
                         (case py_str (render rt) keywords of
                            Inl e \<Rightarrow> ([], Inl e)
                          | Inr keywords' \<Rightarrow>
                              invoke_llm be llm
                                (''Write comprehensive blog post about '' @ topic' @ '' for ''
                                 @ audience' @ '' ('' @ tone' @ '' tone, '' @ word_count'
                                 @ '' words). Keywords: '' @ keywords'))))))"

text \<open>
  \<^verbatim>\<open>
  def seo_optimizer(text: str, keywords: str, llm: ChatOpenAI) -> str:
      seo_prompt = PromptTemplate(
          template="Improve SEO for this content using keywords {keywords}:\n\n{text}", ...)
      chain = seo_prompt | llm
      return chain.invoke({"text": text, "keywords": keywords}).content
  \<close>
\<close>

definition seo_optimizer :: "backend \<Rightarrow> runtime \<Rightarrow> pyval \<Rightarrow> pyval \<Rightarrow> client \<Rightarrow> string run" where
  "seo_optimizer be rt text' keywords llm =
     (case py_str (render rt) keywords of
        Inl e \<Rightarrow> ([], Inl e)
      | Inr keywords' \<Rightarrow>
          (case py_str (render rt) text' of
             Inl e \<Rightarrow> ([], Inl e)
           | Inr rendered \<Rightarrow>
               invoke_llm be llm
                 (''Improve SEO for this content using keywords '' @ keywords' @ '':''
                  @ nl @ nl @ rendered)))"

section \<open>The linear orchestrator\<close>

text \<open>
  A call \<^verbatim>\<open>f(**payload, llm=llm)\<close> of a stage function whose other parameters are
  \<open>params\<close>. Python merges the keywords first (a payload that is no mapping, or one that
  has the key \<^verbatim>\<open>llm\<close> itself, is a \<^verbatim>\<open>TypeError\<close>), then binds them: an unknown keyword
  is a \<^verbatim>\<open>TypeError\<close>, and so is a parameter left without a value. The values are
  returned in the order of \<open>params\<close>.
\<close>

definition call_keywords :: "string list \<Rightarrow> pyval \<Rightarrow> error + pyval list" where
  "call_keywords params payload =
     (case payload of
        PDict d \<Rightarrow>
          (if ''llm'' \<in> set (map fst d) then Inl (TypeError (MultipleValues ''llm''))
           else (case filter (\<lambda>k. k \<notin> set params) (map fst d) of
                   k # _ \<Rightarrow> Inl (TypeError (UnexpectedKeyword k))
                 | [] \<Rightarrow>
                     (case those (map (map_of d) params) of
                        Some vs \<Rightarrow> Inr vs
                      | None \<Rightarrow>
                          Inl (TypeError (MissingArguments
                            (filter (\<lambda>p. map_of d p = None) params))))))
      | _ \<Rightarrow> Inl (TypeError NotAMapping))"

record tool =
  tool_name :: string
  tool_func :: "string \<Rightarrow> string run"
  tool_description :: string

text \<open>
  \<^verbatim>\<open>
  tools = [
      Tool(name="OutlineGenerator",
           func=lambda x: generate_outline(**json.loads(x), llm=llm), ...),
      Tool(name="BlogWriter",
           func=lambda x: generate_blog_post(**json.loads(x), llm=llm), ...),
      Tool(name="SEOOptimizer",
           func=lambda x: seo_optimizer(**json.loads(x), llm=llm), ...)]
  \<close>
  The last branch of each \<open>case\<close> is never taken: \<open>call_keywords\<close> returns one value for
  each parameter.
\<close>

definition outline_tool_func :: "backend \<Rightarrow> runtime \<Rightarrow> client \<Rightarrow> string \<Rightarrow> string run" where
  "outline_tool_func be rt llm x =
     (case json_loads rt x of
        Inl e \<Rightarrow> ([], Inl e)
      | Inr payload \<Rightarrow>
          (case call_keywords [''topic'', ''audience''] payload of
             Inl e \<Rightarrow> ([], Inl e)
           | Inr [topic, audience] \<Rightarrow> generate_outline be rt topic audience llm
           | Inr _ \<Rightarrow> ([], Inl (TypeError (MissingArguments [''topic'', ''audience''])))))"

definition blog_tool_func :: "backend \<Rightarrow> runtime \<Rightarrow> client \<Rightarrow> string \<Rightarrow> string run" where
  "blog_tool_func be rt llm x =
     (case json_loads rt x of
        Inl e \<Rightarrow> ([], Inl e)
      | Inr payload \<Rightarrow>
          (case call_keywords [''topic'', ''audience'', ''tone'', ''word_count'', ''keywords'']
                  payload of
             Inl e \<Rightarrow> ([], Inl e)
           | Inr [topic, audience, tone, word_count, keywords] \<Rightarrow>
               generate_blog_post be rt topic audience tone word_count keywords llm
           | Inr _ \<Rightarrow>
               ([], Inl (TypeError (MissingArguments
                  [''topic'', ''audience'', ''tone'', ''word_count'', ''keywords''])))))"

definition seo_tool_func :: "backend \<Rightarrow> runtime \<Rightarrow> client \<Rightarrow> string \<Rightarrow> string run" where
  "seo_tool_func be rt llm x =
     (case json_loads rt x of
        Inl e \<Rightarrow> ([], Inl e)
      | Inr payload \<Rightarrow>
          (case call_keywords [''text'', ''keywords''] payload of
             Inl e \<Rightarrow> ([], Inl e)
           | Inr [text', keywords] \<Rightarrow> seo_optimizer be rt text' keywords llm
           | Inr _ \<Rightarrow> ([], Inl (TypeError (MissingArguments [''text'', ''keywords''])))))"

definition tools :: "backend \<Rightarrow> runtime \<Rightarrow> client \<Rightarrow> tool list" where
  "tools be rt llm =
     [\<lparr>tool_name = ''OutlineGenerator'',
       tool_func = outline_tool_func be rt llm,
       tool_description =
         ''Creates content outlines. Input should be JSON with '' @ sq @ ''topic'' @ sq
         @ '' and '' @ sq @ ''audience'' @ sq @ '' keys''\<rparr>,
      \<lparr>tool_name = ''BlogWriter'',
       tool_func = blog_tool_func be rt llm,
       tool_description =
         ''Writes blog posts. Input should be JSON with '' @ sq @ ''topic'' @ sq @ '', ''
         @ sq @ ''audience'' @ sq @ '', '' @ sq @ ''tone'' @ sq @ '', '' @ sq @ ''word_count''
         @ sq @ '', '' @ sq @ ''keywords'' @ sq\<rparr>,
      \<lparr>tool_name = ''SEOOptimizer'',
       tool_func = seo_tool_func be rt llm,
       tool_description =
         ''Optimizes content. Input should be JSON with '' @ sq @ ''text'' @ sq @ '' and ''
         @ sq @ ''keywords'' @ sq\<rparr>]"

text \<open>
  The parameters, besides \<^verbatim>\<open>llm\<close>, of the stage function behind each tool: the keys its
  payload has to have.
\<close>

definition tool_parameters :: "string \<Rightarrow> string list" where
  "tool_parameters name =
     (if name = ''OutlineGenerator'' then [''topic'', ''audience'']
      else if name = ''BlogWriter''
      then [''topic'', ''audience'', ''tone'', ''word_count'', ''keywords'']
      else if name = ''SEOOptimizer'' then [''text'', ''keywords'']
      else [])"

text \<open>What the output parser of the reasoning loop makes of one reply of the model.\<close>

datatype parsed =
    AgentAction string string
  | AgentFinish string
  | Unparsable string

text \<open>
  The agent frameworks are libraries, not code of this repository. What the program
  leaves to them is collected here, so that every statement below holds for whatever
  they do:
  \<^item> \<open>hub_pull\<close>: \<^verbatim>\<open>hub.pull\<close>, a download that can fail;
  \<^item> \<open>format_prompt\<close>: the text the reasoning loop sends to the model, from the pulled
    prompt, the names and descriptions of the tools, the input and the steps so far;
  \<^item> \<open>parse_output\<close>: the output parser of the loop;
  \<^item> \<open>max_iterations\<close>, \<open>stopped_response\<close>: the iteration policy of the loop and the
    answer it gives when the iterations are used up;
  \<^item> \<open>parsing_error_observation\<close>, \<open>invalid_tool_observation\<close>: what the loop tells the
    model after an unparsable reply and after the choice of a tool that does not exist;
  \<^item> \<open>tool_error\<close>: what the loop does with an exception raised by the function of a
    tool, \<open>None\<close> to let it propagate and \<open>Some obs\<close> to go on with \<open>obs\<close> as the
    observation;
  \<^item> \<open>agent_prompt\<close>: the text a crew sends to the model of an agent for a task and its
    context;
  \<^item> \<open>crew_output\<close>: the shape in which a crew returns its final text.
\<close>

record libraries =
  hub_pull :: "string \<Rightarrow> error + string"
  format_prompt :: "string \<Rightarrow> (string \<times> string) list \<Rightarrow> string \<Rightarrow> (string \<times> string) list \<Rightarrow> string"
  parse_output :: "string \<Rightarrow> parsed"
  max_iterations :: nat
  stopped_response :: string
  parsing_error_observation :: string
  invalid_tool_observation :: "string \<Rightarrow> string list \<Rightarrow> string"
  tool_error :: "error \<Rightarrow> string option"
  agent_prompt :: "agent \<Rightarrow> task \<Rightarrow> string \<Rightarrow> string"
  crew_output :: "string \<Rightarrow> pyval"

record react_agent =
  react_llm :: client
  react_tools :: "tool list"
  react_prompt :: string

definition create_react_agent :: "client \<Rightarrow> tool list \<Rightarrow> string \<Rightarrow> react_agent" where
  "create_react_agent llm ts prompt = \<lparr>react_llm = llm, react_tools = ts, react_prompt = prompt\<rparr>"

record agent_executor =
  executor_agent :: react_agent
  executor_tools :: "tool list"
  executor_verbose :: bool
  handle_parsing_errors :: bool

text \<open>
  How a turn of the reasoning loop ends: with one more step for the loop to go on with,
  or with the result of the run.
\<close>

datatype next_step = Continue "string \<times> string" | Stop "error + string"

text \<open>
  Modelled from the spec: one turn of the reasoning loop of \<^verbatim>\<open>AgentExecutor\<close>, which
  belongs to the agent library. The model is asked once. The turn then either ends the
  loop with the final text, or invokes one tool and records what it returned, or, on a
  reply it cannot parse, records the parsing error as the observation when
  \<open>handle_parsing_errors\<close> is set and raises otherwise. The program gives the loop no option
  for an exception raised by the function of a tool, so what happens then is the
  library's \<open>tool_error\<close>. \<open>steps\<close> holds the turns so far, each the reply of the model and
  the observation that followed.
\<close>

definition take_next_step ::
  "libraries \<Rightarrow> backend \<Rightarrow> agent_executor \<Rightarrow> string \<Rightarrow> (string \<times> string) list \<Rightarrow> event list \<times> next_step" where
  "take_next_step lib be ex inp steps =
     (let llm = react_llm (executor_agent ex);
          prompt = format_prompt lib (react_prompt (executor_agent ex))
                     (map (\<lambda>t. (tool_name t, tool_description t)) (react_tools (executor_agent ex)))
                     inp steps;
          call = ModelCall llm prompt
      in case be llm prompt of
           Inl e \<Rightarrow> ([call], Stop (Inl e))
         | Inr reply \<Rightarrow>
             (case parse_output lib reply of
                AgentFinish out \<Rightarrow> ([call], Stop (Inr out))
              | Unparsable msg \<Rightarrow>
                  (if handle_parsing_errors ex
                   then ([call], Continue (reply, parsing_error_observation lib))
                   else ([call], Stop (Inl (OutputParserException msg))))
              | AgentAction name payload \<Rightarrow>
                  (case find (\<lambda>t. tool_name t = name) (executor_tools ex) of
                     None \<Rightarrow>
                       ([call], Continue (reply, invalid_tool_observation lib name
                                                   (map tool_name (executor_tools ex))))
                   | Some t \<Rightarrow>
                       (case tool_func t payload of
                          (tev, Inr obs) \<Rightarrow> (call # tev, Continue (reply, obs))
                        | (tev, Inl e) \<Rightarrow>
                            (case tool_error lib e of
                               None \<Rightarrow> (call # tev, Stop (Inl e))
                             | Some obs \<Rightarrow> (call # tev, Continue (reply, obs)))))))"

text \<open>
  Modelled from the spec: the reasoning loop of \<^verbatim>\<open>AgentExecutor\<close>. Turns are taken until
  one stops the loop or the iterations of the library's policy are used up; the loop
  then answers with the library's stop response. The second argument from the right is
  the number of turns left.
\<close>

fun agent_loop ::
  "libraries \<Rightarrow> backend \<Rightarrow> agent_executor \<Rightarrow> string \<Rightarrow> nat \<Rightarrow> (string \<times> string) list \<Rightarrow> string run" where
  "agent_loop lib be ex inp 0 steps = ([], Inr (stopped_response lib))"
| "agent_loop lib be ex inp (Suc n) steps =
     (case take_next_step lib be ex inp steps of
        (ev, Stop r) \<Rightarrow> (ev, r)
      | (ev, Continue st) \<Rightarrow>
          (case agent_loop lib be ex inp n (steps @ [st]) of
             (ev', r) \<Rightarrow> (ev @ ev', r)))"

text \<open>
  The steps that the loop has recorded after \<open>k\<close> more turns, \<open>None\<close> when a turn has
  stopped it before.
\<close>

fun steps_after ::
  "libraries \<Rightarrow> backend \<Rightarrow> agent_executor \<Rightarrow> string \<Rightarrow> nat \<Rightarrow> (string \<times> string) list
     \<Rightarrow> (string \<times> string) list option" where
  "steps_after lib be ex inp 0 steps = Some steps"
| "steps_after lib be ex inp (Suc k) steps =
     (case take_next_step lib be ex inp steps of
        (ev, Stop r) \<Rightarrow> None
      | (ev, Continue st) \<Rightarrow> steps_after lib be ex inp k (steps @ [st]))"

text \<open>
  Modelled from the spec: \<^verbatim>\<open>agent_executor.invoke({"input": ...})\<close> of the agent library.
  The loop runs with the iteration policy of the library, and the result is the inputs
  together with the final text under the key \<^verbatim>\<open>output\<close>.
\<close>

definition executor_invoke ::
  "libraries \<Rightarrow> backend \<Rightarrow> agent_executor \<Rightarrow> (string \<times> string) list \<Rightarrow> (string \<times> string) list run" where
  "executor_invoke lib be ex inputs =
     (case map_of inputs ''input'' of
        None \<Rightarrow> ([], Inl (KeyError ''input''))
      | Some inp \<Rightarrow>
          (case agent_loop lib be ex inp (max_iterations lib) [] of
             (ev, Inl e) \<Rightarrow> (ev, Inl e)
           | (ev, Inr out) \<Rightarrow> (ev, Inr (filter (\<lambda>(k, v). k \<noteq> ''output'') inputs @ [(''output'', out)]))))"

text \<open>The f-string that \<^verbatim>\<open>langchain_blog_post\<close> passes as the input of the loop.\<close>

definition linear_instruction :: "string \<Rightarrow> string \<Rightarrow> string \<Rightarrow> int \<Rightarrow> string \<Rightarrow> string" where
  "linear_instruction topic audience tone word_count keywords =
     ''Write a blog post about '' @ topic @ '' for '' @ audience @ '' with '' @ tone
     @ '' tone, '' @ nl @ replicate 8 (CHR '' '') @ str_int word_count
     @ '' words, using keywords: '' @ keywords @ ''. Follow this process:'' @ nl
     @ replicate 8 (CHR '' '') @ ''1. First create an outline using OutlineGenerator'' @ nl
     @ replicate 8 (CHR '' '') @ ''2. Then write the full post using BlogWriter'' @ nl
     @ replicate 8 (CHR '' '') @ ''3. Finally optimize for SEO using SEOOptimizer''"

text \<open>
  \<^verbatim>\<open>
  prompt = hub.pull("hwchase17/react")
  agent = create_react_agent(llm, tools, prompt)
  agent_executor = AgentExecutor(agent=agent, tools=tools, verbose=False,
                                 handle_parsing_errors=True)
  \<close>
\<close>

definition blog_executor :: "backend \<Rightarrow> runtime \<Rightarrow> client \<Rightarrow> string \<Rightarrow> agent_executor" where
  "blog_executor be rt llm prompt =
     \<lparr>executor_agent = create_react_agent llm (tools be rt llm) prompt,
      executor_tools = tools be rt llm,
      executor_verbose = False,
      handle_parsing_errors = True\<rparr>"

text \<open>
  \<^verbatim>\<open>
  result = agent_executor.invoke({"input": f"""..."""})
  return result['output']
  \<close>
\<close>

definition langchain_blog_post ::
  "libraries \<Rightarrow> backend \<Rightarrow> runtime \<Rightarrow> string \<Rightarrow> string \<Rightarrow> string \<Rightarrow> int \<Rightarrow> string \<Rightarrow> client \<Rightarrow> string run" where
  "langchain_blog_post lib be rt topic audience tone word_count keywords llm =
     (case hub_pull lib ''hwchase17/react'' of
        Inl e \<Rightarrow> ([], Inl e)
      | Inr prompt \<Rightarrow>
          (case executor_invoke lib be (blog_executor be rt llm prompt)
                  [(''input'', linear_instruction topic audience tone word_count keywords)] of
             (ev, Inl e) \<Rightarrow> (ev, Inl e)
           | (ev, Inr result) \<Rightarrow>
               (case map_of result ''output'' of
                  None \<Rightarrow> (ev, Inl (KeyError ''output''))
                | Some out \<Rightarrow> (ev, Inr out))))"

section \<open>The crew orchestrator\<close>

record crew =
  crew_agents :: "agent list"
  crew_tasks :: "task list"
  crew_verbose :: bool

text \<open>The three agents of \<^verbatim>\<open>crewai_blog_post\<close>, each built with \<^verbatim>\<open>llm=llm\<close>.\<close>

definition outline_agent :: "client \<Rightarrow> agent" where
  "outline_agent llm =
     Agent ''Content Strategist'' ''Create compelling content outlines''
       ''Expert in structuring engaging content for various audiences'' llm True"

definition writer_agent :: "client \<Rightarrow> agent" where
  "writer_agent llm =
     Agent ''Content Writer'' ''Write high-quality blog posts''
       ''Skilled writer with expertise in various industries and tones'' llm True"

definition seo_agent :: "client \<Rightarrow> agent" where
  "seo_agent llm =
     Agent ''SEO Specialist'' ''Optimize content for search engines''
       ''SEO expert with deep knowledge of keyword optimization'' llm True"

text \<open>
  The three tasks. \<^verbatim>\<open>outline_task\<close> is built without \<^verbatim>\<open>context\<close>, \<^verbatim>\<open>writing_task\<close> with
  \<^verbatim>\<open>context=[outline_task]\<close> and \<^verbatim>\<open>seo_task\<close> with \<^verbatim>\<open>context=[writing_task]\<close>.
\<close>

definition outline_task :: "string \<Rightarrow> string \<Rightarrow> client \<Rightarrow> task" where
  "outline_task topic audience llm =
     Task (''Create an outline for a blog post about '' @ topic @ '' targeting '' @ audience)
       (outline_agent llm)
       ''Detailed content outline with main sections, sub-sections, and key points''
       []"

definition writing_task :: "string \<Rightarrow> string \<Rightarrow> string \<Rightarrow> int \<Rightarrow> string \<Rightarrow> client \<Rightarrow> task" where
  "writing_task topic audience tone word_count keywords llm =
     Task (''Write a '' @ str_int word_count @ ''-word blog post about '' @ topic @ '' for ''
           @ audience @ '' '' @ nl @ replicate 8 (CHR '' '') @ ''with a '' @ tone
           @ '' tone. Keywords to include: '' @ keywords)
       (writer_agent llm)
       ''Well-written blog post with proper structure and engaging content''
       [outline_task topic audience llm]"

definition seo_task :: "string \<Rightarrow> string \<Rightarrow> string \<Rightarrow> int \<Rightarrow> string \<Rightarrow> client \<Rightarrow> task" where
  "seo_task topic audience tone word_count keywords llm =
     Task (''Optimize the blog post for SEO using keywords: '' @ keywords)
       (seo_agent llm)
       ''SEO-optimized version of the blog post with improved keyword usage''
       [writing_task topic audience tone word_count keywords llm]"

text \<open>
  \<^verbatim>\<open>
  crew = Crew(agents=[outline_agent, writer_agent, seo_agent],
              tasks=[outline_task, writing_task, seo_task], verbose=True)
  \<close>
\<close>

definition blog_crew :: "string \<Rightarrow> string \<Rightarrow> string \<Rightarrow> int \<Rightarrow> string \<Rightarrow> client \<Rightarrow> crew" where
  "blog_crew topic audience tone word_count keywords llm =
     \<lparr>crew_agents = [outline_agent llm, writer_agent llm, seo_agent llm],
      crew_tasks = [outline_task topic audience llm,
                    writing_task topic audience tone word_count keywords llm,
                    seo_task topic audience tone word_count keywords llm],
      crew_verbose = True\<rparr>"

text \<open>
  Modelled from the spec: when the coordinator behind \<^verbatim>\<open>crew.kickoff()\<close>, which belongs to
  the crew library, may run a task. A task is ready when all the tasks of its context
  have produced output; \<open>finished\<close> holds the tasks that have, with their outputs.
\<close>

definition ready :: "(task \<times> string) list \<Rightarrow> task \<Rightarrow> bool" where
  "ready finished t = list_all (\<lambda>d. map_of finished d \<noteq> None) (task_context t)"

text \<open>
  Modelled from the spec: the context text of a task, the outputs of the tasks of its
  context, concatenated.
\<close>

definition context_text :: "(task \<times> string) list \<Rightarrow> task \<Rightarrow> string" where
  "context_text finished t = concat (List.map_filter (map_of finished) (task_context t))"

text \<open>
  Modelled from the spec: the execution of one task. The model of the task's agent is
  asked once, with the text the library makes of the agent, the task and the context.
\<close>

definition execute_task :: "libraries \<Rightarrow> backend \<Rightarrow> task \<Rightarrow> string \<Rightarrow> string run" where
  "execute_task lib be t ctx =
     (let llm = agent_llm (task_agent t);
          prompt = agent_prompt lib (task_agent t) t ctx
      in case be llm prompt of
           Inl e \<Rightarrow> ([TaskStarted t ctx, ModelCall llm prompt, TaskFailed t e], Inl e)
         | Inr out \<Rightarrow> ([TaskStarted t ctx, ModelCall llm prompt, TaskCompleted t out], Inr out))"

text \<open>
  Modelled from the spec: the coordinator. It runs the first ready task among those still
  pending and keeps its output for the tasks that depend on it, until no task is pending.
  A task that fails halts the run, and so does a state in which no pending task is ready.
\<close>

function run_tasks ::
  "libraries \<Rightarrow> backend \<Rightarrow> (task \<times> string) list \<Rightarrow> task list \<Rightarrow> (task \<times> string) list run" where
  "run_tasks lib be finished pending =
     (if pending = [] then ([], Inr finished)
      else case find (ready finished) pending of
             None \<Rightarrow> ([], Inl (TaskFailure ''no task is ready''))
           | Some t \<Rightarrow>
               (case execute_task lib be t (context_text finished t) of
                  (ev, Inl e) \<Rightarrow> (ev, Inl e)
                | (ev, Inr out) \<Rightarrow>
                    (case run_tasks lib be (finished @ [(t, out)]) (remove1 t pending) of
                       (ev', r) \<Rightarrow> (ev @ ev', r))))"
  by pat_completeness auto
termination
proof (relation "measure (\<lambda>(lib, be, finished, pending). length pending)")
  show "wf (measure (\<lambda>(lib, be, finished, pending). length pending))"
    by simp
next
  fix lib :: libraries and be :: backend and finished :: "(task \<times> string) list"
    and pending :: "task list" and t :: task and out :: string
    and x :: "event list \<times> (error + string)" and ev :: "event list"
    and r :: "error + string"
  assume "pending \<noteq> []" and found: "find (ready finished) pending = Some t"
  from found have "t \<in> set pending"
    by (auto simp: find_Some_iff)
  then have "length (remove1 t pending) < length pending"
    by (simp add: length_remove1) (cases pending; simp)
  then show "((lib, be, finished @ [(t, out)], remove1 t pending), (lib, be, finished, pending))
      \<in> measure (\<lambda>(lib, be, finished, pending). length pending)"
    by simp
qed

text \<open>
  Modelled from the spec: \<^verbatim>\<open>crew.kickoff()\<close>. The result is the output of the task that ran
  last, in the shape the library gives it.
\<close>

definition kickoff :: "libraries \<Rightarrow> backend \<Rightarrow> crew \<Rightarrow> pyval run" where
  "kickoff lib be c =
     (case run_tasks lib be [] (crew_tasks c) of
        (ev, Inl e) \<Rightarrow> (ev, Inl e)
      | (ev, Inr finished) \<Rightarrow>
          (case finished of
             [] \<Rightarrow> (ev, Inl (TaskFailure ''no task''))
           | _ \<Rightarrow> (ev, Inr (crew_output lib (snd (last finished))))))"

text \<open>
  \<^verbatim>\<open>
  result = crew.kickoff()
  return clean_crewai_output(result)
  \<close>
\<close>

definition crewai_blog_post ::
  "libraries \<Rightarrow> backend \<Rightarrow> runtime \<Rightarrow> string \<Rightarrow> string \<Rightarrow> string \<Rightarrow> int \<Rightarrow> string \<Rightarrow> client \<Rightarrow> pyval run" where
  "crewai_blog_post lib be rt topic audience tone word_count keywords llm =
     (case kickoff lib be (blog_crew topic audience tone word_count keywords llm) of
        (ev, Inl e) \<Rightarrow> (ev, Inl e)
      | (ev, Inr result) \<Rightarrow> (ev, clean_crewai_output (render rt) result))"

section \<open>The script\<close>

text \<open>
  The state of the process: the credential in the environment, the two module-level
  variables, and the identity that the next object will get.
  \<^verbatim>\<open>
  load_dotenv()
  openai_api_key = os.getenv("OPENAI_API_KEY")
  llm = ChatOpenAI(temperature=0.8, model="gpt-4")
  \<close>
\<close>

record app =
  environ_key :: "string option"
  openai_api_key :: "string option"
  llm_global :: client
  next_ident :: nat

definition module_init :: "string option \<Rightarrow> error + app" where
  "module_init key =
     (case ChatOpenAI key 0 0.8 ''gpt-4'' of
        Inl e \<Rightarrow> Inl e
      | Inr c \<Rightarrow>
          Inr \<lparr>environ_key = key, openai_api_key = key, llm_global = c, next_ident = 1\<rparr>)"

datatype framework = LangChain | CrewAI

text \<open>The widgets of the page; \<open>button\<close> is \<^verbatim>\<open>st.button("Generate Blog Post")\<close>.\<close>

record settings =
  ui_model_name :: string
  ui_temperature :: real
  ui_framework :: framework
  ui_topic :: string
  ui_audience :: string
  ui_tone :: string
  ui_word_count :: int
  ui_keywords :: string
  button :: bool

text \<open>
  What a run of the script leaves on the page: nothing new, the generated post
  (\<^verbatim>\<open>st.write\<close>), the error caught in \<^verbatim>\<open>main()\<close> (\<^verbatim>\<open>st.error\<close>), or an exception that
  nothing in the script catches.
\<close>

datatype display = Idle | BlogPost pyval | ErrorMessage error | Uncaught error

text \<open>
  \<^verbatim>\<open>
  if st.button("Generate Blog Post"):
      try:
          current_llm = get_llm(temperature, model_name)
          if framework == "LangChain":
              blog_post = langchain_blog_post(topic, ..., current_llm)
          else:
              blog_post = crewai_blog_post(topic, ..., current_llm)
          st.write(blog_post)
      except Exception as e:
          st.error(f"Error occurred: {str(e)}")
  \<close>
  What the page shows afterwards is the \<open>display\<close>: the post, or the message of the
  exception caught. The state is returned with the identity of the new client used up.
\<close>

definition main ::
  "libraries \<Rightarrow> backend \<Rightarrow> runtime \<Rightarrow> app \<Rightarrow> settings \<Rightarrow> app \<times> event list \<times> display" where
  "main lib be rt s ui =
     (if button ui then
        (case get_llm (environ_key s) (next_ident s) (ui_temperature ui) (ui_model_name ui) of
           Inl e \<Rightarrow> (s, [], ErrorMessage e)
         | Inr current_llm \<Rightarrow>
             (let s' = s\<lparr>next_ident := Suc (next_ident s)\<rparr>;
                  run = (if ui_framework ui = LangChain
                         then (case langchain_blog_post lib be rt (ui_topic ui) (ui_audience ui)
                                      (ui_tone ui) (ui_word_count ui) (ui_keywords ui)
                                      current_llm of
                                 (ev, Inl e) \<Rightarrow> (ev, Inl e)
                               | (ev, Inr text') \<Rightarrow> (ev, Inr (PStr text')))
                         else crewai_blog_post lib be rt (ui_topic ui) (ui_audience ui)
                                (ui_tone ui) (ui_word_count ui) (ui_keywords ui) current_llm)
              in case run of
                   (ev, Inl e) \<Rightarrow> (s', ev, ErrorMessage e)
                 | (ev, Inr blog_post) \<Rightarrow> (s', ev, BlogPost blog_post)))
      else (s, [], Idle))"

text \<open>One execution of the script: the module-level statements, then \<^verbatim>\<open>main()\<close>.\<close>

definition script ::
  "libraries \<Rightarrow> backend \<Rightarrow> runtime \<Rightarrow> string option \<Rightarrow> settings \<Rightarrow> event list \<times> display" where
  "script lib be rt key ui =
     (case module_init key of
        Inl e \<Rightarrow> ([], Uncaught e)
      | Inr s \<Rightarrow> snd (main lib be rt s ui))"

text \<open>
  The state after \<^verbatim>\<open>main()\<close> has run once for each of the given settings, in one process.
\<close>

fun sessions :: "libraries \<Rightarrow> backend \<Rightarrow> runtime \<Rightarrow> app \<Rightarrow> settings list \<Rightarrow> app" where
  "sessions lib be rt s [] = s"
| "sessions lib be rt s (ui # uis) = sessions lib be rt (fst (main lib be rt s ui)) uis"

text \<open>
  Identities are handed out in increasing order, so the module-level client of a state
  is older than every object still to be created.
\<close>

definition fresh_state :: "app \<Rightarrow> bool" where
  "fresh_state s \<longleftrightarrow> ident (llm_global s) < next_ident s"

text \<open>The tasks that a log shows as started, in order.\<close>

fun started_tasks :: "event list \<Rightarrow> task list" where
  "started_tasks [] = []"
| "started_tasks (TaskStarted t ctx # ev) = t # started_tasks ev"
| "started_tasks (e # ev) = started_tasks ev"

text \<open>The clients that carried the model requests of a log, in order.\<close>

fun called_clients :: "event list \<Rightarrow> client list" where
  "called_clients [] = []"
| "called_clients (ModelCall c prompt # ev) = c # called_clients ev"
| "called_clients (e # ev) = called_clients ev"

section \<open>A concrete scenario\<close>

text \<open>
  Concrete libraries, a concrete model and a concrete runtime, on which the statements
  below are evaluated. \<open>example_render\<close> renders an \<^verbatim>\<open>int\<close> in decimal, an object as
  its tag and a dict as its keys between braces; the object with the tag
  \<^verbatim>\<open>unprintable\<close> raises when it is rendered, and so does a dict that holds it.
\<close>

definition example_render :: "pyval \<Rightarrow> error + string" where
  "example_render v =
     (case v of
        PStr s \<Rightarrow> Inr s
      | PInt i \<Rightarrow> Inr (str_int i)
      | PDict d \<Rightarrow>
          (if PObj ''unprintable'' \<in> set (map snd d)
           then Inl (ValueError ''unprintable'')
           else Inr (''{'' @ concat (map fst d) @ ''}''))
      | PObj tag \<Rightarrow>
          (if tag = ''unprintable'' then Inl (ValueError ''unprintable'') else Inr tag))"

definition example_client :: client where
  "example_client = \<lparr>ident = 1, temperature = 0.8, model = ''gpt-4'', api_key = ''sk-example''\<rparr>"

definition example_libraries :: libraries where
  \<open>example_libraries =
     \<lparr>hub_pull = (\<lambda>name. Inr ''Answer the following questions as best you can.''),
      format_prompt = (\<lambda>template ts inp steps. concat (map snd steps)),
      parse_output =
        (\<lambda>reply. if reply = ''Final Answer: post'' then AgentFinish ''post''
                  else if reply = ''Action: OutlineGenerator''
                  then AgentAction ''OutlineGenerator'' ''{"topic": "AI"}''
                  else Unparsable reply),
      max_iterations = 15,
      stopped_response = ''Agent stopped due to iteration limit or time limit.'',
      parsing_error_observation = ''Invalid or incomplete response'',
      invalid_tool_observation = (\<lambda>name names. name @ '' is not a valid tool''),
      tool_error = (\<lambda>e. None),
      agent_prompt = (\<lambda>a t ctx. description t @ '': '' @ ctx),
      crew_output = (\<lambda>text. PDict [(''raw'', PStr text), (''tasks'', PInt 3)])\<rparr>\<close>

text \<open>The same libraries, with a loop that goes on after a tool has raised.\<close>

definition lenient_libraries :: libraries where
  "lenient_libraries = example_libraries\<lparr>tool_error := (\<lambda>e. Some ''the tool failed'')\<rparr>"

definition example_runtime :: runtime where
  \<open>example_runtime =
     \<lparr>render = example_render,
      json_loads =
        (\<lambda>x. if x = ''{"topic": "AI"}'' then Inr (PDict [(''topic'', PStr ''AI'')])
             else Inl (JSONDecodeError x))\<rparr>\<close>

text \<open>
  Four models: one that answers with the first seven characters of the prompt, one that
  cannot be reached, one whose first reply is no action and no final answer, and one
  that keeps calling the outline tool without the key \<^verbatim>\<open>audience\<close>.
\<close>

definition short_backend :: backend where
  "short_backend c prompt = Inr (take 7 prompt)"

definition offline_backend :: backend where
  "offline_backend c prompt = Inl (TransportError ''offline'')"

definition malformed_once_backend :: backend where
  "malformed_once_backend c prompt =
     (if prompt = [] then Inr ''I should write an outline first''
      else Inr ''Final Answer: post'')"

definition wrong_keys_backend :: backend where
  "wrong_keys_backend c prompt = Inr ''Action: OutlineGenerator''"

text \<open>
  The process after the module-level statements, with a credential in the environment,
  and a press of the button with the widgets as they are when the page opens.
\<close>

definition example_app :: app where
  "example_app =
     \<lparr>environ_key = Some ''sk-example'', openai_api_key = Some ''sk-example'',
      llm_global = \<lparr>ident = 0, temperature = 0.8, model = ''gpt-4'', api_key = ''sk-example''\<rparr>,
      next_ident = 1\<rparr>"

definition example_settings :: settings where
  "example_settings =
     \<lparr>ui_model_name = ''gpt-4'', ui_temperature = 0.8, ui_framework = CrewAI,
      ui_topic = ''The Future of AI in Content Creation'',
      ui_audience = ''marketing professionals'',
      ui_tone = ''insightful yet accessible'',
      ui_word_count = 1200,
      ui_keywords = ''AI content creation, future of marketing, automated content'',
      button = True\<rparr>"

section \<open>The result normalizer returns what it is given, or its text\<close>

declare str_nat.simps [simp del]

text \<open>
  C3. The normalizer is the identity on a plain string: whatever the string, the result
  is that string, unchanged.
\<close>

theorem normalizer_identity_on_strings:
  "clean_crewai_output r (PStr s) = Inr (PStr s)"
  by simp

lemma clean_dict_raw:
  "map_of d ''raw'' = Some v \<Longrightarrow> r (PDict d) = Inr rendering \<Longrightarrow>
   clean_crewai_output r (PDict d) = Inr v"
  by (simp add: dict_get_def py_str_def)

lemma clean_dict_no_raw:
  "map_of d ''raw'' = None \<Longrightarrow> r (PDict d) = Inr rendering \<Longrightarrow>
   clean_crewai_output r (PDict d) = Inr (PStr rendering)"
  by (simp add: dict_get_def py_str_def)

lemma clean_other:
  "\<not> is_str v \<Longrightarrow> \<not> is_dict v \<Longrightarrow> r v = Inr rendering \<Longrightarrow>
   clean_crewai_output r v = Inr (PStr rendering)"
  by (cases v) (simp_all add: py_str_def)

lemma clean_raises:
  "\<not> is_str v \<Longrightarrow> r v = Inl e \<Longrightarrow> clean_crewai_output r v = Inl e"
  by (cases v) (simp_all add: py_str_def)

lemma clean_str_result:
  assumes "clean_crewai_output r v = Inr x"
    and "\<forall>d y. v = PDict d \<and> map_of d ''raw'' = Some y \<longrightarrow> is_str y"
  shows "is_str x"
proof (cases v)
  case (PStr s)
  with assms show ?thesis
    by auto
next
  case (PInt i)
  with assms show ?thesis
    by (auto split: sum.splits)
next
  case (PDict d)
  with assms show ?thesis
    by (cases "map_of d ''raw''") (auto simp: dict_get_def split: sum.splits)
next
  case (PObj tag)
  with assms show ?thesis
    by (auto split: sum.splits)
qed

text \<open>
  C4, as the claim states it, ends with "the normalizer always returns a string". A dict
  whose \<^verbatim>\<open>raw\<close> entry is the integer 5 is returned as that integer: \<^verbatim>\<open>dict.get\<close> hands
  the entry back as it is.
\<close>

theorem normalizer_not_always_string:
  "clean_crewai_output example_render (PDict [(''raw'', PInt 5)]) = Inr (PInt 5)
   \<and> \<not> is_str (PInt 5)"
  by (simp add: dict_get_def py_str_def example_render_def)

text \<open>
  C4, amended. When the rendering of the result does not raise: for a dict with a
  \<^verbatim>\<open>raw\<close> entry the normalizer returns exactly the value of that entry, whatever the
  other entries are; for a dict without one it returns the string rendering of the whole
  dict; for any other value that is not a string it returns the string rendering of the
  value. When the rendering of a result that is not a string raises, the normalizer
  raises, also for a dict that has a \<^verbatim>\<open>raw\<close> entry, since the rendering is evaluated
  before the lookup. A result that is returned is a string whenever the \<^verbatim>\<open>raw\<close> entry, if
  there is one, is a string.
\<close>

theorem normalizer_cases:
  "(\<forall>d v rendering. map_of d ''raw'' = Some v \<and> r (PDict d) = Inr rendering \<longrightarrow>
      clean_crewai_output r (PDict d) = Inr v)
   \<and> (\<forall>d rendering. map_of d ''raw'' = None \<and> r (PDict d) = Inr rendering \<longrightarrow>
          clean_crewai_output r (PDict d) = Inr (PStr rendering))
   \<and> (\<forall>v rendering. \<not> is_str v \<and> \<not> is_dict v \<and> r v = Inr rendering \<longrightarrow>
          clean_crewai_output r v = Inr (PStr rendering))
   \<and> (\<forall>v e. \<not> is_str v \<and> r v = Inl e \<longrightarrow> clean_crewai_output r v = Inl e)
   \<and> (\<forall>v x. clean_crewai_output r v = Inr x
            \<and> (\<forall>d y. v = PDict d \<and> map_of d ''raw'' = Some y \<longrightarrow> is_str y) \<longrightarrow>
          is_str x)"
  using clean_dict_raw [of _ _ r] clean_dict_no_raw [of _ r] clean_other [of _ r]
    clean_raises [of _ r] clean_str_result [of r]
  by blast

theorem normalizer_cases_witness:
  "clean_crewai_output example_render (PDict [(''raw'', PStr ''post''), (''tasks'', PInt 3)])
     = Inr (PStr ''post'')
   \<and> clean_crewai_output example_render (PDict [(''tasks'', PInt 3)]) = Inr (PStr ''{tasks}'')
   \<and> clean_crewai_output example_render (PObj ''CrewOutput'') = Inr (PStr ''CrewOutput'')
   \<and> clean_crewai_output example_render
        (PDict [(''raw'', PStr ''post''), (''usage'', PObj ''unprintable'')])
     = Inl (ValueError ''unprintable'')
   \<and> is_str (PStr ''post'')"
proof -
  note n = normalizer_cases [of example_render]
  have a: "map_of [(''raw'', PStr ''post''), (''tasks'', PInt 3)] ''raw'' = Some (PStr ''post'')
      \<and> example_render (PDict [(''raw'', PStr ''post''), (''tasks'', PInt 3)])
          = Inr ''{rawtasks}''"
    by (simp add: example_render_def)
  have b: "map_of [(''tasks'', PInt 3)] ''raw'' = None
      \<and> example_render (PDict [(''tasks'', PInt 3)]) = Inr ''{tasks}''"
    by (simp add: example_render_def)
  have c: "\<not> is_str (PObj ''CrewOutput'') \<and> \<not> is_dict (PObj ''CrewOutput'')
      \<and> example_render (PObj ''CrewOutput'') = Inr ''CrewOutput''"
    by (simp add: example_render_def)
  have d: "\<not> is_str (PDict [(''raw'', PStr ''post''), (''usage'', PObj ''unprintable'')])
      \<and> example_render (PDict [(''raw'', PStr ''post''), (''usage'', PObj ''unprintable'')])
          = Inl (ValueError ''unprintable'')"
    by (simp add: example_render_def)
  have e: "\<forall>d y. PDict [(''raw'', PStr ''post''), (''tasks'', PInt 3)] = PDict d
      \<and> map_of d ''raw'' = Some y \<longrightarrow> is_str y"
    by auto
  from n a have r1: "clean_crewai_output example_render
      (PDict [(''raw'', PStr ''post''), (''tasks'', PInt 3)]) = Inr (PStr ''post'')"
    by blast
  from n b have r2: "clean_crewai_output example_render (PDict [(''tasks'', PInt 3)])
      = Inr (PStr ''{tasks}'')"
    by blast
  from n c have r3: "clean_crewai_output example_render (PObj ''CrewOutput'')
      = Inr (PStr ''CrewOutput'')"
    by blast
  from n d have r4: "clean_crewai_output example_render
      (PDict [(''raw'', PStr ''post''), (''usage'', PObj ''unprintable'')])
      = Inl (ValueError ''unprintable'')"
    by blast
  from n r1 e have r5: "is_str (PStr ''post'')"
    by blast
  from r1 r2 r3 r4 r5 show ?thesis
    by blast
qed

section \<open>The crew runs its tasks in order and fails as a whole\<close>

declare run_tasks.simps [simp del]

lemma run_tasks_nil: "run_tasks lib be finished [] = ([], Inr finished)"
  by (simp add: run_tasks.simps)

lemma run_tasks_step:
  "find (ready finished) (p # ps) = Some t \<Longrightarrow>
   run_tasks lib be finished (p # ps) =
     (case execute_task lib be t (context_text finished t) of
        (ev, Inl e) \<Rightarrow> (ev, Inl e)
      | (ev, Inr out) \<Rightarrow>
          (case run_tasks lib be (finished @ [(t, out)]) (remove1 t (p # ps)) of
             (ev', r) \<Rightarrow> (ev @ ev', r)))"
  by (subst run_tasks.simps) simp

lemma outline_neq_writing:
  "outline_task topic audience llm \<noteq> writing_task topic audience tone wc kw llm"
  by (simp add: outline_task_def writing_task_def)

lemma outline_neq_seo:
  "outline_task topic audience llm \<noteq> seo_task topic audience tone wc kw llm"
  by (simp add: outline_task_def seo_task_def)

lemma writing_neq_seo:
  "writing_task topic audience tone wc kw llm \<noteq> seo_task topic audience tone wc kw llm"
  by (simp add: writing_task_def seo_task_def)

lemma context_outline [simp]: "task_context (outline_task topic audience llm) = []"
  by (simp add: outline_task_def)

lemma context_writing [simp]:
  "task_context (writing_task topic audience tone wc kw llm) = [outline_task topic audience llm]"
  by (simp add: writing_task_def)

lemma context_seo [simp]:
  "task_context (seo_task topic audience tone wc kw llm) = [writing_task topic audience tone wc kw llm]"
  by (simp add: seo_task_def)

lemma blog_crew_run:
  fixes topic audience tone wc kw llm
  defines "ot \<equiv> outline_task topic audience llm"
    and "wt \<equiv> writing_task topic audience tone wc kw llm"
    and "st \<equiv> seo_task topic audience tone wc kw llm"
  shows "run_tasks lib be [] (crew_tasks (blog_crew topic audience tone wc kw llm)) =
     (case execute_task lib be ot [] of
        (ev1, Inl e) \<Rightarrow> (ev1, Inl e)
      | (ev1, Inr out1) \<Rightarrow>
          (case execute_task lib be wt out1 of
             (ev2, Inl e) \<Rightarrow> (ev1 @ ev2, Inl e)
           | (ev2, Inr out2) \<Rightarrow>
               (case execute_task lib be st out2 of
                  (ev3, Inl e) \<Rightarrow> (ev1 @ ev2 @ ev3, Inl e)
                | (ev3, Inr out3) \<Rightarrow>
                    (ev1 @ ev2 @ ev3, Inr [(ot, out1), (wt, out2), (st, out3)]))))"
proof -
  have ow: "ot \<noteq> wt" and os: "ot \<noteq> st" and ws: "wt \<noteq> st"
    unfolding ot_def wt_def st_def
    by (rule outline_neq_writing outline_neq_seo writing_neq_seo)+
  have c [simp]: "task_context ot = []" "task_context wt = [ot]" "task_context st = [wt]"
    unfolding ot_def wt_def st_def by simp_all
  have s1: "run_tasks lib be [] [ot, wt, st] =
     (case execute_task lib be ot [] of
        (ev, Inl e) \<Rightarrow> (ev, Inl e)
      | (ev, Inr out) \<Rightarrow>
          (case run_tasks lib be [(ot, out)] [wt, st] of (ev', r) \<Rightarrow> (ev @ ev', r)))"
    by (subst run_tasks_step [where t = ot])
       (simp_all add: ready_def context_text_def List.map_filter_simps)
  have s2: "run_tasks lib be [(ot, out1)] [wt, st] =
     (case execute_task lib be wt out1 of
        (ev, Inl e) \<Rightarrow> (ev, Inl e)
      | (ev, Inr out) \<Rightarrow>
          (case run_tasks lib be [(ot, out1), (wt, out)] [st] of (ev', r) \<Rightarrow> (ev @ ev', r)))"
    for out1
    by (subst run_tasks_step [where t = wt])
       (simp_all add: ready_def context_text_def List.map_filter_simps)
  have s3: "run_tasks lib be [(ot, out1), (wt, out2)] [st] =
     (case execute_task lib be st out2 of
        (ev, Inl e) \<Rightarrow> (ev, Inl e)
      | (ev, Inr out) \<Rightarrow> (ev, Inr [(ot, out1), (wt, out2), (st, out)]))"
    for out1 out2
    using ow
    by (subst run_tasks_step [where t = st])
       (simp_all add: ready_def context_text_def List.map_filter_simps run_tasks_nil)
  show ?thesis
    unfolding blog_crew_def ot_def [symmetric] wt_def [symmetric] st_def [symmetric]
    by (simp add: s1 s2 s3 split: prod.splits sum.splits)
qed

lemma kickoff_blog_crew:
  fixes topic audience tone wc kw llm
  defines "ot \<equiv> outline_task topic audience llm"
    and "wt \<equiv> writing_task topic audience tone wc kw llm"
    and "st \<equiv> seo_task topic audience tone wc kw llm"
  shows "crewai_blog_post lib be rt topic audience tone wc kw llm =
     (case execute_task lib be ot [] of
        (ev1, Inl e) \<Rightarrow> (ev1, Inl e)
      | (ev1, Inr out1) \<Rightarrow>
          (case execute_task lib be wt out1 of
             (ev2, Inl e) \<Rightarrow> (ev1 @ ev2, Inl e)
           | (ev2, Inr out2) \<Rightarrow>
               (case execute_task lib be st out2 of
                  (ev3, Inl e) \<Rightarrow> (ev1 @ ev2 @ ev3, Inl e)
                | (ev3, Inr out3) \<Rightarrow>
                    (ev1 @ ev2 @ ev3,
                     clean_crewai_output (render rt) (crew_output lib out3)))))"
  unfolding crewai_blog_post_def kickoff_def ot_def wt_def st_def
  by (simp add: blog_crew_run split: prod.splits sum.splits)

lemma execute_task_cases:
  obtains (failed) e where
      "be (agent_llm (task_agent t)) (agent_prompt lib (task_agent t) t ctx) = Inl e"
      "execute_task lib be t ctx =
         ([TaskStarted t ctx,
           ModelCall (agent_llm (task_agent t)) (agent_prompt lib (task_agent t) t ctx),
           TaskFailed t e], Inl e)"
  | (completed) out where
      "be (agent_llm (task_agent t)) (agent_prompt lib (task_agent t) t ctx) = Inr out"
      "execute_task lib be t ctx =
         ([TaskStarted t ctx,
           ModelCall (agent_llm (task_agent t)) (agent_prompt lib (task_agent t) t ctx),
           TaskCompleted t out], Inr out)"
  by (cases "be (agent_llm (task_agent t)) (agent_prompt lib (task_agent t) t ctx)")
     (simp_all add: execute_task_def)

text \<open>
  C5. In every run of the crew, whatever the request and whatever the model answers, the
  writing task starts only after the outline task has produced its output, and the SEO
  task only after the writing task has; the context a task starts with is the output of
  the task it depends on.
\<close>

theorem crew_runs_in_dependency_order:
  assumes run: "crewai_blog_post lib be rt topic audience tone wc kw llm = (ev, r)"
  shows "(\<forall>pre ctx post.
            ev = pre @ TaskStarted (writing_task topic audience tone wc kw llm) ctx # post \<longrightarrow>
            TaskCompleted (outline_task topic audience llm) ctx \<in> set pre)
       \<and> (\<forall>pre ctx post.
            ev = pre @ TaskStarted (seo_task topic audience tone wc kw llm) ctx # post \<longrightarrow>
            TaskCompleted (writing_task topic audience tone wc kw llm) ctx \<in> set pre)"
proof -
  let ?ot = "outline_task topic audience llm"
  let ?wt = "writing_task topic audience tone wc kw llm"
  let ?st = "seo_task topic audience tone wc kw llm"
  note d = outline_neq_writing [of topic audience llm tone wc kw]
    outline_neq_seo [of topic audience llm tone wc kw]
    writing_neq_seo [of topic audience tone wc kw llm]
  note k = kickoff_blog_crew [of lib be rt topic audience tone wc kw llm]
  show ?thesis
  proof (cases rule: execute_task_cases [where lib = lib and be = be and t = ?ot and ctx = "[]"])
    case (failed e)
    with run k d show ?thesis
      by (auto simp: Cons_eq_append_conv)
  next
    case c1: (completed out1)
    show ?thesis
    proof (cases rule: execute_task_cases [where lib = lib and be = be and t = ?wt and ctx = out1])
      case (failed e)
      with c1 run k d show ?thesis
        by (auto simp: Cons_eq_append_conv)
    next
      case c2: (completed out2)
      show ?thesis
      proof (cases rule: execute_task_cases [where lib = lib and be = be and t = ?st and ctx = out2])
        case (failed e)
        with c1 c2 run k d show ?thesis
          by (auto simp: Cons_eq_append_conv)
      next
        case (completed out3)
        with c1 c2 run k d show ?thesis
          by (auto simp: Cons_eq_append_conv)
      qed
    qed
  qed
qed

text \<open>
  C6. If a task of the crew fails, the run ends there with that error and returns no
  output; if the outline task fails, the writing task and the SEO task never start, and
  a failed model call of the outline task is such a failure.
\<close>

theorem crew_fails_fast:
  assumes run: "crewai_blog_post lib be rt topic audience tone wc kw llm = (ev, r)"
  shows "(\<forall>t e. TaskFailed t e \<in> set ev \<longrightarrow> r = Inl e \<and> (\<exists>pre. ev = pre @ [TaskFailed t e]))
       \<and> (\<forall>e. TaskFailed (outline_task topic audience llm) e \<in> set ev \<longrightarrow>
            (\<forall>ctx. TaskStarted (writing_task topic audience tone wc kw llm) ctx \<notin> set ev
                 \<and> TaskStarted (seo_task topic audience tone wc kw llm) ctx \<notin> set ev))
       \<and> (\<forall>e. be llm (agent_prompt lib (outline_agent llm) (outline_task topic audience llm) [])
                 = Inl e \<longrightarrow>
            ev = [TaskStarted (outline_task topic audience llm) [],
                  ModelCall llm
                    (agent_prompt lib (outline_agent llm) (outline_task topic audience llm) []),
                  TaskFailed (outline_task topic audience llm) e]
            \<and> r = Inl e)"
proof -
  let ?ot = "outline_task topic audience llm"
  let ?wt = "writing_task topic audience tone wc kw llm"
  let ?st = "seo_task topic audience tone wc kw llm"
  note d = outline_neq_writing [of topic audience llm tone wc kw]
    outline_neq_seo [of topic audience llm tone wc kw]
    writing_neq_seo [of topic audience tone wc kw llm]
  have a: "task_agent ?ot = outline_agent llm" "agent_llm (outline_agent llm) = llm"
    by (simp_all add: outline_task_def outline_agent_def)
  note k = kickoff_blog_crew [of lib be rt topic audience tone wc kw llm]
  show ?thesis
  proof (cases rule: execute_task_cases [where lib = lib and be = be and t = ?ot and ctx = "[]"])
    case (failed e)
    with run k d a show ?thesis
      by auto
  next
    case c1: (completed out1)
    show ?thesis
    proof (cases rule: execute_task_cases [where lib = lib and be = be and t = ?wt and ctx = out1])
      case (failed e)
      with c1 run k d a show ?thesis
        by auto
    next
      case c2: (completed out2)
      show ?thesis
      proof (cases rule: execute_task_cases [where lib = lib and be = be and t = ?st and ctx = out2])
        case (failed e)
        with c1 c2 run k d a show ?thesis
          by auto
      next
        case (completed out3)
        with c1 c2 run k d a show ?thesis
          by auto
      qed
    qed
  qed
qed

text \<open>
  C8. A run of the crew has one client. The crew is built with three agents that all hold
  the client the orchestrator was given; every task that starts in the run is run by one
  of these agents, so with that client's model name and temperature; every model request
  of the run is carried by that client; and a run that returns a result has started the
  three tasks with the strategist, the writer and the SEO specialist, in this order.
\<close>

theorem crew_agents_share_one_client:
  assumes run: "crewai_blog_post lib be rt topic audience tone wc kw llm = (ev, r)"
  shows "crew_agents (blog_crew topic audience tone wc kw llm)
           = [outline_agent llm, writer_agent llm, seo_agent llm]
       \<and> map agent_llm (crew_agents (blog_crew topic audience tone wc kw llm)) = [llm, llm, llm]
       \<and> (\<forall>t \<in> set (started_tasks ev).
            task_agent t \<in> set (crew_agents (blog_crew topic audience tone wc kw llm))
            \<and> agent_llm (task_agent t) = llm
            \<and> model (agent_llm (task_agent t)) = model llm
            \<and> temperature (agent_llm (task_agent t)) = temperature llm)
       \<and> set (called_clients ev) \<subseteq> {llm}
       \<and> (\<forall>x. r = Inr x \<longrightarrow>
            map task_agent (started_tasks ev)
              = [outline_agent llm, writer_agent llm, seo_agent llm])"
proof -
  let ?ot = "outline_task topic audience llm"
  let ?wt = "writing_task topic audience tone wc kw llm"
  let ?st = "seo_task topic audience tone wc kw llm"
  have c: "crew_agents (blog_crew topic audience tone wc kw llm)
      = [outline_agent llm, writer_agent llm, seo_agent llm]"
    by (simp add: blog_crew_def)
  have a: "task_agent ?ot = outline_agent llm" "task_agent ?wt = writer_agent llm"
    "task_agent ?st = seo_agent llm" "agent_llm (outline_agent llm) = llm"
    "agent_llm (writer_agent llm) = llm" "agent_llm (seo_agent llm) = llm"
    by (simp_all add: outline_task_def writing_task_def seo_task_def
        outline_agent_def writer_agent_def seo_agent_def)
  note k = kickoff_blog_crew [of lib be rt topic audience tone wc kw llm]
  show ?thesis
  proof (cases rule: execute_task_cases [where lib = lib and be = be and t = ?ot and ctx = "[]"])
    case (failed e)
    with run k c a show ?thesis
      by auto
  next
    case c1: (completed out1)
    show ?thesis
    proof (cases rule: execute_task_cases [where lib = lib and be = be and t = ?wt and ctx = out1])
      case (failed e)
      with c1 run k c a show ?thesis
        by auto
    next
      case c2: (completed out2)
      show ?thesis
      proof (cases rule: execute_task_cases [where lib = lib and be = be and t = ?st and ctx = out2])
        case (failed e)
        with c1 c2 run k c a show ?thesis
          by auto
      next
        case (completed out3)
        with c1 c2 run k c a show ?thesis
          by auto
      qed
    qed
  qed
qed

theorem crew_agents_share_one_client_witness:
  "map (\<lambda>t. agent_llm (task_agent t))
     (started_tasks (fst (crewai_blog_post example_libraries short_backend example_runtime
                            ''AI'' ''devs'' ''dry'' 500 ''ai, ml'' example_client)))
     = [example_client, example_client, example_client]
   \<and> called_clients (fst (crewai_blog_post example_libraries short_backend example_runtime
                            ''AI'' ''devs'' ''dry'' 500 ''ai, ml'' example_client))
     = [example_client, example_client, example_client]"
proof -
  let ?run = "crewai_blog_post example_libraries short_backend example_runtime
                ''AI'' ''devs'' ''dry'' 500 ''ai, ml'' example_client"
  have eq: "?run = (fst ?run, snd ?run)"
    by simp
  have res: "snd ?run = Inr (PStr ''Optimiz'')"
    by code_simp
  have calls: "called_clients (fst ?run) = [example_client, example_client, example_client]"
    by code_simp
  from crew_agents_share_one_client [OF eq] res
  have "map task_agent (started_tasks (fst ?run))
      = [outline_agent example_client, writer_agent example_client, seo_agent example_client]"
    by blast
  then have "map (\<lambda>t. agent_llm (task_agent t)) (started_tasks (fst ?run))
      = map agent_llm
          [outline_agent example_client, writer_agent example_client, seo_agent example_client]"
    by (simp only: map_map [symmetric, unfolded comp_def])
  then have "map (\<lambda>t. agent_llm (task_agent t)) (started_tasks (fst ?run))
      = [example_client, example_client, example_client]"
    by (simp add: outline_agent_def writer_agent_def seo_agent_def)
  with calls show ?thesis
    by simp
qed

theorem crew_runs_in_dependency_order_witness:
  "TaskCompleted (outline_task ''AI'' ''devs'' example_client) ''Create ''
     \<in> set (take 3 (fst (crewai_blog_post example_libraries short_backend example_runtime
                            ''AI'' ''devs'' ''dry'' 500 ''ai, ml'' example_client)))
   \<and> TaskCompleted (writing_task ''AI'' ''devs'' ''dry'' 500 ''ai, ml'' example_client) ''Write a''
     \<in> set (take 6 (fst (crewai_blog_post example_libraries short_backend example_runtime
                            ''AI'' ''devs'' ''dry'' 500 ''ai, ml'' example_client)))"
proof -
  let ?run = "crewai_blog_post example_libraries short_backend example_runtime
                ''AI'' ''devs'' ''dry'' 500 ''ai, ml'' example_client"
  have eq: "?run = (fst ?run, snd ?run)"
    by simp
  have len: "length (fst ?run) = 9"
    by code_simp
  have w: "fst ?run ! 3
             = TaskStarted (writing_task ''AI'' ''devs'' ''dry'' 500 ''ai, ml'' example_client)
                 ''Create ''"
    by code_simp
  have s: "fst ?run ! 6
             = TaskStarted (seo_task ''AI'' ''devs'' ''dry'' 500 ''ai, ml'' example_client)
                 ''Write a''"
    by code_simp
  have dw: "fst ?run = take 3 (fst ?run)
              @ TaskStarted (writing_task ''AI'' ''devs'' ''dry'' 500 ''ai, ml'' example_client)
                  ''Create '' # drop 4 (fst ?run)"
    using id_take_nth_drop [of 3 "fst ?run"] len w by simp
  have ds: "fst ?run = take 6 (fst ?run)
              @ TaskStarted (seo_task ''AI'' ''devs'' ''dry'' 500 ''ai, ml'' example_client)
                  ''Write a'' # drop 7 (fst ?run)"
    using id_take_nth_drop [of 6 "fst ?run"] len s by simp
  from crew_runs_in_dependency_order [OF eq] dw ds show ?thesis
    by blast
qed

theorem crew_fails_fast_witness:
  "crewai_blog_post example_libraries offline_backend example_runtime
      ''AI'' ''devs'' ''dry'' 500 ''ai, ml'' example_client
   = ([TaskStarted (outline_task ''AI'' ''devs'' example_client) [],
       ModelCall example_client
         (agent_prompt example_libraries (outline_agent example_client)
            (outline_task ''AI'' ''devs'' example_client) []),
       TaskFailed (outline_task ''AI'' ''devs'' example_client) (TransportError ''offline'')],
      Inl (TransportError ''offline''))
   \<and> (\<forall>ctx. TaskStarted (writing_task ''AI'' ''devs'' ''dry'' 500 ''ai, ml'' example_client) ctx
          \<notin> set (fst (crewai_blog_post example_libraries offline_backend example_runtime
                          ''AI'' ''devs'' ''dry'' 500 ''ai, ml'' example_client)))"
proof -
  let ?run = "crewai_blog_post example_libraries offline_backend example_runtime
                ''AI'' ''devs'' ''dry'' 500 ''ai, ml'' example_client"
  have eq: "?run = (fst ?run, snd ?run)"
    by simp
  have off: "offline_backend example_client
               (agent_prompt example_libraries (outline_agent example_client)
                  (outline_task ''AI'' ''devs'' example_client) [])
             = Inl (TransportError ''offline'')"
    by (simp add: offline_backend_def)
  note t = crew_fails_fast [OF eq]
  from t off have ev: "fst ?run
      = [TaskStarted (outline_task ''AI'' ''devs'' example_client) [],
         ModelCall example_client
           (agent_prompt example_libraries (outline_agent example_client)
              (outline_task ''AI'' ''devs'' example_client) []),
         TaskFailed (outline_task ''AI'' ''devs'' example_client) (TransportError ''offline'')]"
    and r: "snd ?run = Inl (TransportError ''offline'')"
    by blast+
  from ev have "TaskFailed (outline_task ''AI'' ''devs'' example_client) (TransportError ''offline'')
      \<in> set (fst ?run)"
    by simp
  with t have "\<forall>ctx. TaskStarted (writing_task ''AI'' ''devs'' ''dry'' 500 ''ai, ml'' example_client) ctx
          \<notin> set (fst ?run)"
    by blast
  with ev r show ?thesis
    by (metis prod.collapse)
qed

section \<open>The reasoning loop of the linear orchestrator\<close>

lemma those_None: "those xs = None \<longleftrightarrow> None \<in> set xs"
  by (induction xs) (auto split: option.splits)

lemma call_keywords_mismatch:
  assumes "set (map fst d) \<noteq> set params"
  shows "\<exists>te. call_keywords params (PDict d) = Inl (TypeError te)"
proof (cases "''llm'' \<in> set (map fst d)")
  case True
  then show ?thesis
    by (simp add: call_keywords_def)
next
  case llm: False
  show ?thesis
  proof (cases "filter (\<lambda>k. k \<notin> set params) (map fst d)")
    case (Cons k ks)
    with llm show ?thesis
      by (simp add: call_keywords_def)
  next
    case Nil
    then have sub: "set (map fst d) \<subseteq> set params"
      by (auto simp: filter_empty_conv)
    with assms obtain p where p: "p \<in> set params" "p \<notin> set (map fst d)"
      by auto
    then have "map_of d p = None"
      by (simp add: map_of_eq_None_iff)
    with p have "those (map (map_of d) params) = None"
      by (force simp: those_None)
    with llm Nil show ?thesis
      by (simp add: call_keywords_def)
  qed
qed

lemma loop_split:
  "steps_after lib be ex inp k steps = Some steps' \<Longrightarrow>
   snd (agent_loop lib be ex inp (k + n) steps) = snd (agent_loop lib be ex inp n steps')"
proof (induction k arbitrary: steps)
  case 0
  then show ?case by simp
next
  case (Suc k)
  from Suc.prems obtain ev st where
    turn: "take_next_step lib be ex inp steps = (ev, Continue st)"
    and rest: "steps_after lib be ex inp k (steps @ [st]) = Some steps'"
    by (auto split: prod.splits next_step.splits)
  from turn have "snd (agent_loop lib be ex inp (Suc k + n) steps)
      = snd (agent_loop lib be ex inp (k + n) (steps @ [st]))"
    by (simp split: prod.splits)
  with Suc.IH [OF rest] show ?case
    by simp
qed

lemma blog_turn_malformed:
  assumes "be llm (format_prompt lib prompt
              (map (\<lambda>t. (tool_name t, tool_description t)) (tools be rt llm)) inp steps)
           = Inr reply"
    and "parse_output lib reply = Unparsable msg"
  shows "take_next_step lib be (blog_executor be rt llm prompt) inp steps
         = ([ModelCall llm (format_prompt lib prompt
               (map (\<lambda>t. (tool_name t, tool_description t)) (tools be rt llm)) inp steps)],
            Continue (reply, parsing_error_observation lib))"
  using assms
  by (simp add: take_next_step_def blog_executor_def create_react_agent_def)

lemma blog_turn_finish:
  assumes "be llm (format_prompt lib prompt
              (map (\<lambda>t. (tool_name t, tool_description t)) (tools be rt llm)) inp steps)
           = Inr reply"
    and "parse_output lib reply = AgentFinish a"
  shows "take_next_step lib be (blog_executor be rt llm prompt) inp steps
         = ([ModelCall llm (format_prompt lib prompt
               (map (\<lambda>t. (tool_name t, tool_description t)) (tools be rt llm)) inp steps)],
            Stop (Inr a))"
  using assms
  by (simp add: take_next_step_def blog_executor_def create_react_agent_def)

lemma langchain_blog_post_loop:
  assumes "hub_pull lib ''hwchase17/react'' = Inr prompt"
  shows "langchain_blog_post lib be rt topic audience tone wc kw llm
         = agent_loop lib be (blog_executor be rt llm prompt)
             (linear_instruction topic audience tone wc kw) (max_iterations lib) []"
  using assms
  by (simp add: langchain_blog_post_def executor_invoke_def split: prod.splits sum.splits)

text \<open>
  C7. The loop of the linear orchestrator tolerates an unparsable reply: at whatever turn
  the reply of the model cannot be parsed, the run does not abort, and its result is the
  result of the loop continued with the parsing error as the observation of that turn.
  In particular, when the next reply declares the final answer, the run returns that
  answer.
\<close>

theorem linear_loop_recovers_from_malformed_reply:
  assumes pull: "hub_pull lib ''hwchase17/react'' = Inr prompt"
    and reach: "steps_after lib be (blog_executor be rt llm prompt)
                  (linear_instruction topic audience tone wc kw) k [] = Some steps"
    and reply: "be llm (format_prompt lib prompt
                  (map (\<lambda>t. (tool_name t, tool_description t)) (tools be rt llm))
                  (linear_instruction topic audience tone wc kw) steps) = Inr reply"
    and bad: "parse_output lib reply = Unparsable msg"
    and budget: "max_iterations lib = k + Suc n"
  shows "snd (langchain_blog_post lib be rt topic audience tone wc kw llm)
         = snd (agent_loop lib be (blog_executor be rt llm prompt)
                  (linear_instruction topic audience tone wc kw) n
                  (steps @ [(reply, parsing_error_observation lib)]))
       \<and> (\<forall>reply' a.
            be llm (format_prompt lib prompt
                  (map (\<lambda>t. (tool_name t, tool_description t)) (tools be rt llm))
                  (linear_instruction topic audience tone wc kw)
                  (steps @ [(reply, parsing_error_observation lib)])) = Inr reply'
            \<and> parse_output lib reply' = AgentFinish a \<and> 0 < n \<longrightarrow>
            snd (langchain_blog_post lib be rt topic audience tone wc kw llm) = Inr a)"
proof -
  let ?ex = "blog_executor be rt llm prompt"
  let ?inp = "linear_instruction topic audience tone wc kw"
  let ?steps' = "steps @ [(reply, parsing_error_observation lib)]"
  have "snd (langchain_blog_post lib be rt topic audience tone wc kw llm)
        = snd (agent_loop lib be ?ex ?inp (k + Suc n) [])"
    using pull budget by (simp add: langchain_blog_post_loop)
  also have "\<dots> = snd (agent_loop lib be ?ex ?inp (Suc n) steps)"
    by (rule loop_split [OF reach])
  also have "\<dots> = snd (agent_loop lib be ?ex ?inp n ?steps')"
    using blog_turn_malformed [where be = be and llm = llm and lib = lib and rt = rt, OF reply bad]
    by (simp split: prod.splits)
  finally have main: "snd (langchain_blog_post lib be rt topic audience tone wc kw llm)
        = snd (agent_loop lib be ?ex ?inp n ?steps')" .
  have "snd (agent_loop lib be ?ex ?inp n ?steps') = Inr a"
    if "be llm (format_prompt lib prompt
                  (map (\<lambda>t. (tool_name t, tool_description t)) (tools be rt llm))
                  ?inp ?steps') = Inr reply'"
      and "parse_output lib reply' = AgentFinish a" and "0 < n" for reply' a
  proof -
    from \<open>0 < n\<close> obtain m where "n = Suc m"
      by (cases n) simp_all
    with blog_turn_finish [where be = be and llm = llm and lib = lib and rt = rt, OF that(1,2)]
    show ?thesis
      by simp
  qed
  with main show ?thesis
    by simp
qed

text \<open>
  C9. The linear orchestrator returns what the reasoning loop returns, run with the
  iteration policy of the agent library and nothing less: a final answer declared at any
  turn that the policy allows is, exactly, the text returned.
\<close>

theorem linear_returns_final_answer:
  assumes pull: "hub_pull lib ''hwchase17/react'' = Inr prompt"
  shows "langchain_blog_post lib be rt topic audience tone wc kw llm
         = agent_loop lib be (blog_executor be rt llm prompt)
             (linear_instruction topic audience tone wc kw) (max_iterations lib) []
       \<and> (\<forall>k steps reply a.
            steps_after lib be (blog_executor be rt llm prompt)
              (linear_instruction topic audience tone wc kw) k [] = Some steps
            \<and> k < max_iterations lib
            \<and> be llm (format_prompt lib prompt
                  (map (\<lambda>t. (tool_name t, tool_description t)) (tools be rt llm))
                  (linear_instruction topic audience tone wc kw) steps) = Inr reply
            \<and> parse_output lib reply = AgentFinish a \<longrightarrow>
            snd (langchain_blog_post lib be rt topic audience tone wc kw llm) = Inr a)"
proof -
  let ?ex = "blog_executor be rt llm prompt"
  let ?inp = "linear_instruction topic audience tone wc kw"
  note l = langchain_blog_post_loop [OF pull, of be rt topic audience tone wc kw llm]
  have "snd (langchain_blog_post lib be rt topic audience tone wc kw llm) = Inr a"
    if reach: "steps_after lib be ?ex ?inp k [] = Some steps"
      and k: "k < max_iterations lib"
      and reply: "be llm (format_prompt lib prompt
                  (map (\<lambda>t. (tool_name t, tool_description t)) (tools be rt llm))
                  ?inp steps) = Inr reply"
      and fin: "parse_output lib reply = AgentFinish a" for k steps reply a
  proof -
    from k obtain n where n: "max_iterations lib = k + Suc n"
      by (metis less_iff_Suc_add add_Suc_right)
    have "snd (agent_loop lib be ?ex ?inp (k + Suc n) [])
          = snd (agent_loop lib be ?ex ?inp (Suc n) steps)"
      by (rule loop_split [OF reach])
    also have "\<dots> = Inr a"
      using blog_turn_finish [where be = be and llm = llm and lib = lib and rt = rt, OF reply fin]
      by simp
    finally show ?thesis
      using l n by simp
  qed
  with l show ?thesis
    by blast
qed

lemma tool_func_wrong_keys:
  assumes name: "name \<in> {''OutlineGenerator'', ''BlogWriter'', ''SEOOptimizer''}"
    and payload: "json_loads rt x = Inr (PDict d)"
    and keys: "set (map fst d) \<noteq> set (tool_parameters name)"
  shows "\<exists>t te. find (\<lambda>t. tool_name t = name) (tools be rt llm) = Some t
                \<and> tool_func t x = ([], Inl (TypeError te))"
proof -
  from call_keywords_mismatch [OF keys] obtain te where
    te: "call_keywords (tool_parameters name) (PDict d) = Inl (TypeError te)"
    by blast
  from name consider "name = ''OutlineGenerator''" | "name = ''BlogWriter''"
    | "name = ''SEOOptimizer''"
    by blast
  then show ?thesis
  proof cases
    case 1
    with te payload show ?thesis
      by (simp add: tools_def tool_parameters_def outline_tool_func_def)
  next
    case 2
    with te payload show ?thesis
      by (simp add: tools_def tool_parameters_def blog_tool_func_def)
  next
    case 3
    with te payload show ?thesis
      by (simp add: tools_def tool_parameters_def seo_tool_func_def)
  qed
qed

text \<open>
  C2, amended. A tool invoked with a payload whose keys are not the parameters of its
  stage function fails with a \<^verbatim>\<open>TypeError\<close> before any model request of the stage. The
  program has no handler for it. The run ends with that error when the agent library
  lets the exception of a tool propagate, and goes on, with what the library makes of
  the error as the observation, when the library handles it.
\<close>

theorem tool_call_with_wrong_keys:
  assumes name: "name \<in> {''OutlineGenerator'', ''BlogWriter'', ''SEOOptimizer''}"
    and reply: "be llm (format_prompt lib prompt
                  (map (\<lambda>t. (tool_name t, tool_description t)) (tools be rt llm)) inp steps)
                = Inr reply"
    and act: "parse_output lib reply = AgentAction name x"
    and payload: "json_loads rt x = Inr (PDict d)"
    and keys: "set (map fst d) \<noteq> set (tool_parameters name)"
  shows "\<exists>te.
           fst (take_next_step lib be (blog_executor be rt llm prompt) inp steps)
             = [ModelCall llm (format_prompt lib prompt
                  (map (\<lambda>t. (tool_name t, tool_description t)) (tools be rt llm)) inp steps)]
         \<and> (tool_error lib (TypeError te) = None \<longrightarrow>
              snd (agent_loop lib be (blog_executor be rt llm prompt) inp (Suc n) steps)
                = Inl (TypeError te))
         \<and> (\<forall>obs. tool_error lib (TypeError te) = Some obs \<longrightarrow>
              snd (agent_loop lib be (blog_executor be rt llm prompt) inp (Suc n) steps)
                = snd (agent_loop lib be (blog_executor be rt llm prompt) inp n
                         (steps @ [(reply, obs)])))"
proof -
  from tool_func_wrong_keys [OF name payload keys, of be llm] obtain t te where
    t: "find (\<lambda>t. tool_name t = name) (tools be rt llm) = Some t"
    and f: "tool_func t x = ([], Inl (TypeError te))"
    by blast
  let ?call = "ModelCall llm (format_prompt lib prompt
                  (map (\<lambda>t. (tool_name t, tool_description t)) (tools be rt llm)) inp steps)"
  have turn: "take_next_step lib be (blog_executor be rt llm prompt) inp steps
      = (case tool_error lib (TypeError te) of
           None \<Rightarrow> ([?call], Stop (Inl (TypeError te)))
         | Some obs \<Rightarrow> ([?call], Continue (reply, obs)))"
    using reply act t f
    by (simp add: take_next_step_def blog_executor_def create_react_agent_def Let_def
        split: option.splits)
  show ?thesis
  proof (intro exI [of _ te] conjI allI impI)
    show "fst (take_next_step lib be (blog_executor be rt llm prompt) inp steps) = [?call]"
      by (simp add: turn split: option.splits)
  next
    assume "tool_error lib (TypeError te) = None"
    with turn show "snd (agent_loop lib be (blog_executor be rt llm prompt) inp (Suc n) steps)
        = Inl (TypeError te)"
      by simp
  next
    fix obs
    assume "tool_error lib (TypeError te) = Some obs"
    with turn show "snd (agent_loop lib be (blog_executor be rt llm prompt) inp (Suc n) steps)
        = snd (agent_loop lib be (blog_executor be rt llm prompt) inp n (steps @ [(reply, obs)]))"
      by (simp split: prod.splits)
  qed
qed

text \<open>
  C2, as the claim states it, says that a payload with a missing key fails one tool call
  and never the run. With libraries that let the exception of a tool propagate, the
  first call of the outline tool without the key \<^verbatim>\<open>audience\<close> ends the run with the
  \<^verbatim>\<open>TypeError\<close>, after the one model request that chose the tool.
\<close>

theorem linear_run_aborts_on_missing_key:
  "langchain_blog_post example_libraries wrong_keys_backend example_runtime
      ''AI'' ''devs'' ''dry'' 500 ''ai, ml'' example_client
   = ([ModelCall example_client []], Inl (TypeError (MissingArguments [''audience''])))"
  by code_simp

theorem tool_call_with_wrong_keys_witness:
  \<open>(\<exists>te. snd (agent_loop example_libraries wrong_keys_backend
                 (blog_executor wrong_keys_backend example_runtime example_client ''react'')
                 ''Write a blog post'' (Suc 14) [])
          = Inl (TypeError te))
   \<and> snd (agent_loop lenient_libraries wrong_keys_backend
            (blog_executor wrong_keys_backend example_runtime example_client ''react'')
            ''Write a blog post'' (Suc 0) [])
     = snd (agent_loop lenient_libraries wrong_keys_backend
              (blog_executor wrong_keys_backend example_runtime example_client ''react'')
              ''Write a blog post'' 0 [(''Action: OutlineGenerator'', ''the tool failed'')])\<close>
proof -
  let ?x = \<open>''{"topic": "AI"}''\<close>
  have name: "''OutlineGenerator'' \<in> {''OutlineGenerator'', ''BlogWriter'', ''SEOOptimizer''}"
    by simp
  have reply: "wrong_keys_backend example_client
      (format_prompt lib ''react''
         (map (\<lambda>t. (tool_name t, tool_description t))
            (tools wrong_keys_backend example_runtime example_client))
         ''Write a blog post'' [])
      = Inr ''Action: OutlineGenerator''" for lib
    by (simp add: wrong_keys_backend_def)
  have act: "parse_output example_libraries ''Action: OutlineGenerator''
      = AgentAction ''OutlineGenerator'' ?x"
    by (simp add: example_libraries_def)
  have act': "parse_output lenient_libraries ''Action: OutlineGenerator''
      = AgentAction ''OutlineGenerator'' ?x"
    by (simp add: lenient_libraries_def example_libraries_def)
  have payload: "json_loads example_runtime ?x = Inr (PDict [(''topic'', PStr ''AI'')])"
    by (simp add: example_runtime_def)
  have keys: "set (map fst [(''topic'', PStr ''AI'')]) \<noteq> set (tool_parameters ''OutlineGenerator'')"
    by (simp add: tool_parameters_def)
  have strict: "tool_error example_libraries e = None" for e
    by (simp add: example_libraries_def)
  have lenient: "tool_error lenient_libraries e = Some ''the tool failed''" for e
    by (simp add: lenient_libraries_def example_libraries_def)
  from tool_call_with_wrong_keys [where be = wrong_keys_backend and llm = example_client
      and lib = example_libraries and rt = example_runtime and n = 14,
      OF name reply act payload keys]
  have a: "\<exists>te. snd (agent_loop example_libraries wrong_keys_backend
                 (blog_executor wrong_keys_backend example_runtime example_client ''react'')
                 ''Write a blog post'' (Suc 14) [])
          = Inl (TypeError te)"
    by (auto simp: strict)
  from tool_call_with_wrong_keys [where be = wrong_keys_backend and llm = example_client
      and lib = lenient_libraries and rt = example_runtime and n = 0,
      OF name reply act' payload keys]
  have b: "snd (agent_loop lenient_libraries wrong_keys_backend
            (blog_executor wrong_keys_backend example_runtime example_client ''react'')
            ''Write a blog post'' (Suc 0) [])
     = snd (agent_loop lenient_libraries wrong_keys_backend
              (blog_executor wrong_keys_backend example_runtime example_client ''react'')
              ''Write a blog post'' 0 ([] @ [(''Action: OutlineGenerator'', ''the tool failed'')]))"
    by (auto simp: lenient)
  from a b show ?thesis
    by simp
qed

theorem linear_loop_recovers_from_malformed_reply_witness:
  "snd (langchain_blog_post example_libraries malformed_once_backend example_runtime
          ''AI'' ''devs'' ''dry'' 500 ''ai, ml'' example_client)
   = Inr ''post''"
proof -
  let ?inp = "linear_instruction ''AI'' ''devs'' ''dry'' 500 ''ai, ml''"
  let ?prompt = "''Answer the following questions as best you can.''"
  let ?ts = "map (\<lambda>t. (tool_name t, tool_description t))
               (tools malformed_once_backend example_runtime example_client)"
  have pull: "hub_pull example_libraries ''hwchase17/react'' = Inr ?prompt"
    by (simp add: example_libraries_def)
  have reach: "steps_after example_libraries malformed_once_backend
      (blog_executor malformed_once_backend example_runtime example_client ?prompt) ?inp 0 []
      = Some []"
    by simp
  have reply: "malformed_once_backend example_client
      (format_prompt example_libraries ?prompt ?ts ?inp [])
      = Inr ''I should write an outline first''"
    by (simp add: malformed_once_backend_def example_libraries_def)
  have bad: "parse_output example_libraries ''I should write an outline first''
      = Unparsable ''I should write an outline first''"
    by (simp add: example_libraries_def)
  have budget: "max_iterations example_libraries = 0 + Suc 14"
    by (simp add: example_libraries_def)
  have reply': "malformed_once_backend example_client
      (format_prompt example_libraries ?prompt ?ts ?inp
         ([] @ [(''I should write an outline first'',
                 parsing_error_observation example_libraries)]))
      = Inr ''Final Answer: post''"
    by (simp add: malformed_once_backend_def example_libraries_def)
  have fin: "parse_output example_libraries ''Final Answer: post'' = AgentFinish ''post''"
    by (simp add: example_libraries_def)
  from linear_loop_recovers_from_malformed_reply [where be = malformed_once_backend
      and llm = example_client and lib = example_libraries and rt = example_runtime,
      OF pull reach reply bad budget, THEN conjunct2, rule_format,
      of "''Final Answer: post''" "''post''"]
    reply' fin
  show ?thesis
    by simp
qed

theorem linear_returns_final_answer_witness:
  "langchain_blog_post example_libraries malformed_once_backend example_runtime
      ''AI'' ''devs'' ''dry'' 500 ''ai, ml'' example_client
   = ([ModelCall example_client [],
       ModelCall example_client ''Invalid or incomplete response''],
      Inr ''post'')"
proof -
  let ?inp = "linear_instruction ''AI'' ''devs'' ''dry'' 500 ''ai, ml''"
  let ?prompt = "''Answer the following questions as best you can.''"
  have pull: "hub_pull example_libraries ''hwchase17/react'' = Inr ?prompt"
    by (simp add: example_libraries_def)
  have "agent_loop example_libraries malformed_once_backend
          (blog_executor malformed_once_backend example_runtime example_client ?prompt)
          ?inp (max_iterations example_libraries) []
        = ([ModelCall example_client [],
            ModelCall example_client ''Invalid or incomplete response''],
           Inr ''post'')"
    by code_simp
  with linear_returns_final_answer [OF pull] show ?thesis
    by simp
qed

section \<open>Clients and credentials\<close>

lemma called_clients_append [simp]:
  "called_clients (xs @ ys) = called_clients xs @ called_clients ys"
  by (induction xs rule: called_clients.induct) simp_all

lemma clients_invoke_llm [simp]: "called_clients (fst (invoke_llm be c p)) = [c]"
  by (simp add: invoke_llm_def)

lemma clients_outline_tool:
  "set (called_clients (fst (outline_tool_func be rt llm x))) \<subseteq> {llm}"
  by (simp add: outline_tool_func_def generate_outline_def
      split: sum.splits list.splits)

lemma clients_blog_tool:
  "set (called_clients (fst (blog_tool_func be rt llm x))) \<subseteq> {llm}"
  by (simp add: blog_tool_func_def generate_blog_post_def
      split: sum.splits list.splits)

lemma clients_seo_tool:
  "set (called_clients (fst (seo_tool_func be rt llm x))) \<subseteq> {llm}"
  by (simp add: seo_tool_func_def seo_optimizer_def
      split: sum.splits list.splits)

lemma clients_tools:
  "t \<in> set (tools be rt llm) \<Longrightarrow> set (called_clients (fst (tool_func t x))) \<subseteq> {llm}"
  using clients_outline_tool [of be rt llm x] clients_blog_tool [of be rt llm x]
    clients_seo_tool [of be rt llm x]
  by (auto simp: tools_def)

lemma clients_turn:
  assumes "take_next_step lib be (blog_executor be rt llm prompt) inp steps = (ev, nxt)"
  shows "set (called_clients ev) \<subseteq> {llm}"
proof -
  have tool: "c = llm"
    if "find (\<lambda>t. tool_name t = name) (tools be rt llm) = Some t"
      and "tool_func t x = (tev, r)" and "c \<in> set (called_clients tev)" for t name x tev r c
  proof -
    from that(1) have "t \<in> set (tools be rt llm)"
      by (auto simp: find_Some_iff)
    from clients_tools [OF this, of x] that(2,3) show ?thesis
      by auto
  qed
  from assms show ?thesis
    by (auto simp: take_next_step_def blog_executor_def create_react_agent_def Let_def
        split: sum.splits parsed.splits option.splits prod.splits if_splits
        dest: tool)
qed

lemma clients_loop:
  "agent_loop lib be (blog_executor be rt llm prompt) inp n steps = (ev, r) \<Longrightarrow>
   set (called_clients ev) \<subseteq> {llm}"
proof (induction n arbitrary: steps ev r)
  case 0
  then show ?case by auto
next
  case (Suc n)
  obtain tev nxt where
    turn: "take_next_step lib be (blog_executor be rt llm prompt) inp steps = (tev, nxt)"
    by (cases "take_next_step lib be (blog_executor be rt llm prompt) inp steps")
  note c = clients_turn [OF turn]
  show ?case
  proof (cases nxt)
    case (Stop res)
    with Suc.prems turn c show ?thesis
      by auto
  next
    case (Continue st)
    obtain ev' r' where
      rest: "agent_loop lib be (blog_executor be rt llm prompt) inp n (steps @ [st]) = (ev', r')"
      by (cases "agent_loop lib be (blog_executor be rt llm prompt) inp n (steps @ [st])")
    from Suc.IH [OF rest] c Suc.prems turn Continue rest show ?thesis
      by auto
  qed
qed

lemma clients_langchain:
  "langchain_blog_post lib be rt topic audience tone wc kw llm = (ev, r) \<Longrightarrow>
   set (called_clients ev) \<subseteq> {llm}"
proof (cases "hub_pull lib ''hwchase17/react''")
  case (Inl e)
  assume "langchain_blog_post lib be rt topic audience tone wc kw llm = (ev, r)"
  with Inl show ?thesis
    by (simp add: langchain_blog_post_def)
next
  case (Inr prompt)
  assume "langchain_blog_post lib be rt topic audience tone wc kw llm = (ev, r)"
  with langchain_blog_post_loop [OF Inr, of be rt topic audience tone wc kw llm]
  have "agent_loop lib be (blog_executor be rt llm prompt)
          (linear_instruction topic audience tone wc kw) (max_iterations lib) [] = (ev, r)"
    by simp
  then show ?thesis
    by (rule clients_loop)
qed

lemma clients_execute_task:
  "execute_task lib be t ctx = (ev, r) \<Longrightarrow>
   set (called_clients ev) \<subseteq> {agent_llm (task_agent t)}"
  by (auto simp: execute_task_def Let_def split: sum.splits)

lemma clients_crewai:
  assumes "crewai_blog_post lib be rt topic audience tone wc kw llm = (ev, r)"
  shows "set (called_clients ev) \<subseteq> {llm}"
proof -
  have a: "agent_llm (task_agent (outline_task topic audience llm)) = llm"
    "agent_llm (task_agent (writing_task topic audience tone wc kw llm)) = llm"
    "agent_llm (task_agent (seo_task topic audience tone wc kw llm)) = llm"
    by (simp_all add: outline_task_def writing_task_def seo_task_def
        outline_agent_def writer_agent_def seo_agent_def)
  from assms show ?thesis
    unfolding kickoff_blog_crew
    by (auto split: prod.splits sum.splits dest!: clients_execute_task simp: a)
qed

lemma module_init_state:
  assumes "module_init key = Inr s0"
  shows "fresh_state s0 \<and> temperature (llm_global s0) = 0.8 \<and> model (llm_global s0) = ''gpt-4''"
  using assms
  by (auto simp: module_init_def ChatOpenAI_def fresh_state_def split: option.splits)

lemma main_state:
  assumes "fresh_state s"
  shows "fresh_state (fst (main lib be rt s ui))
       \<and> llm_global (fst (main lib be rt s ui)) = llm_global s"
  using assms
  by (auto simp: main_def fresh_state_def Let_def split: sum.splits prod.splits)

lemma sessions_state:
  "fresh_state s \<Longrightarrow>
   fresh_state (sessions lib be rt s uis) \<and> llm_global (sessions lib be rt s uis) = llm_global s"
proof (induction uis arbitrary: s)
  case Nil
  then show ?case by simp
next
  case (Cons ui uis)
  from main_state [OF Cons.prems, of lib be rt ui] Cons.IH [of "fst (main lib be rt s ui)"]
  show ?case
    by simp
qed

lemma main_clients:
  assumes run: "main lib be rt s ui = (s', ev, shown)"
    and c: "c \<in> set (called_clients ev)"
  shows "get_llm (environ_key s) (next_ident s) (ui_temperature ui) (ui_model_name ui) = Inr c"
proof (cases "button ui")
  case False
  with run c show ?thesis
    by (simp add: main_def)
next
  case True
  show ?thesis
  proof (cases "get_llm (environ_key s) (next_ident s) (ui_temperature ui) (ui_model_name ui)")
    case (Inl e)
    with True run c show ?thesis
      by (simp add: main_def)
  next
    case (Inr current_llm)
    show ?thesis
    proof (cases "ui_framework ui")
      case LangChain
      obtain lev lr where l: "langchain_blog_post lib be rt (ui_topic ui) (ui_audience ui)
          (ui_tone ui) (ui_word_count ui) (ui_keywords ui) current_llm = (lev, lr)"
        by (cases "langchain_blog_post lib be rt (ui_topic ui) (ui_audience ui)
          (ui_tone ui) (ui_word_count ui) (ui_keywords ui) current_llm")
      from True Inr LangChain l run have "ev = lev"
        by (auto simp: main_def Let_def split: sum.splits)
      with clients_langchain [OF l] c Inr show ?thesis
        by auto
    next
      case CrewAI
      obtain cev cr where l: "crewai_blog_post lib be rt (ui_topic ui) (ui_audience ui)
          (ui_tone ui) (ui_word_count ui) (ui_keywords ui) current_llm = (cev, cr)"
        by (cases "crewai_blog_post lib be rt (ui_topic ui) (ui_audience ui)
          (ui_tone ui) (ui_word_count ui) (ui_keywords ui) current_llm")
      from True Inr CrewAI l run have "ev = cev"
        by (auto simp: main_def Let_def split: sum.splits)
      with clients_crewai [OF l] c Inr show ?thesis
        by auto
    qed
  qed
qed

text \<open>
  C10. The module-level client, built with temperature 0.8 and model gpt-4, takes part
  in no run. In every run, after any number of earlier runs in the process, each model
  request of either orchestrator, whether it comes from the loop, from a stage function
  behind a tool or from an agent of the crew, is carried by the client that \<^verbatim>\<open>get_llm\<close>
  has just built from the temperature and the model name selected on the page; that
  client is another object than the module-level one, even with the same settings.
\<close>

theorem runs_use_only_the_fresh_client:
  assumes init: "module_init key = Inr s0"
    and state: "s = sessions lib be rt s0 uis"
    and run: "main lib be rt s ui = (s', ev, shown)"
  shows "temperature (llm_global s0) = 0.8 \<and> model (llm_global s0) = ''gpt-4''
       \<and> llm_global s = llm_global s0
       \<and> (\<forall>c \<in> set (called_clients ev).
            get_llm (environ_key s) (next_ident s) (ui_temperature ui) (ui_model_name ui) = Inr c
            \<and> c \<noteq> llm_global s0
            \<and> temperature c = ui_temperature ui \<and> model c = ui_model_name ui)"
proof -
  note i = module_init_state [OF init]
  then have "fresh_state s0"
    by simp
  from sessions_state [OF this, of lib be rt uis] state
  have s: "fresh_state s" "llm_global s = llm_global s0"
    by simp_all
  have "get_llm (environ_key s) (next_ident s) (ui_temperature ui) (ui_model_name ui) = Inr c
        \<and> c \<noteq> llm_global s0
        \<and> temperature c = ui_temperature ui \<and> model c = ui_model_name ui"
    if "c \<in> set (called_clients ev)" for c
  proof -
    from main_clients [OF run that]
    have g: "get_llm (environ_key s) (next_ident s) (ui_temperature ui) (ui_model_name ui) = Inr c" .
    then have "ident c = next_ident s" "temperature c = ui_temperature ui"
      "model c = ui_model_name ui"
      by (auto simp: get_llm_def ChatOpenAI_def split: option.splits)
    with s g show ?thesis
      by (auto simp: fresh_state_def)
  qed
  with i s show ?thesis
    by blast
qed

theorem runs_use_only_the_fresh_client_witness:
  "set (called_clients (fst (snd (main example_libraries short_backend example_runtime
                                    example_app example_settings))))
     = {example_client}
   \<and> example_client \<noteq> llm_global example_app
   \<and> temperature example_client = temperature (llm_global example_app)
   \<and> model example_client = model (llm_global example_app)"
proof -
  let ?run = "main example_libraries short_backend example_runtime example_app example_settings"
  have init: "module_init (Some ''sk-example'') = Inr example_app"
    by (simp add: module_init_def ChatOpenAI_def example_app_def)
  have state: "example_app
      = sessions example_libraries short_backend example_runtime example_app []"
    by simp
  have run: "?run = (fst ?run, fst (snd ?run), snd (snd ?run))"
    by simp
  have calls: "called_clients (fst (snd ?run)) = [example_client, example_client, example_client]"
    by code_simp
  from runs_use_only_the_fresh_client [OF init state run] calls
  have "example_client \<noteq> llm_global example_app"
    "temperature example_client = ui_temperature example_settings"
    "model example_client = ui_model_name example_settings"
    by simp_all
  with calls show ?thesis
    by (simp add: example_settings_def example_app_def)
qed

text \<open>
  C1. Without a credential in the environment no generation runs: the module-level
  statements already fail with the configuration error, and so does \<^verbatim>\<open>main()\<close> at
  \<^verbatim>\<open>get_llm\<close>, for either framework, before any model request is made.
\<close>

theorem missing_credential_is_fatal:
  "script lib be rt None ui = ([], Uncaught ConfigurationError)
   \<and> (environ_key s = None \<and> button ui \<longrightarrow>
        main lib be rt s ui = (s, [], ErrorMessage ConfigurationError))"
  by (simp add: script_def module_init_def main_def get_llm_def ChatOpenAI_def)

theorem missing_credential_is_fatal_witness:
  "main example_libraries short_backend example_runtime
      (example_app\<lparr>environ_key := None\<rparr>) example_settings
   = (example_app\<lparr>environ_key := None\<rparr>, [], ErrorMessage ConfigurationError)
   \<and> script example_libraries short_backend example_runtime None example_settings
     = ([], Uncaught ConfigurationError)"
proof -
  have a: "environ_key (example_app\<lparr>environ_key := None\<rparr>) = None"
    by simp
  have b: "button example_settings"
    by (simp add: example_settings_def)
  from missing_credential_is_fatal [of example_libraries short_backend example_runtime
      example_settings "example_app\<lparr>environ_key := None\<rparr>"] a b
  show ?thesis
    by simp
qed

end
